theory Spec2Isabelle
  imports Complex_Main "HOL-Library.Char_ord" "HOL-Library.List_Lexorder"
begin

section \<open>Data model\<close>

text \<open>
  Python floats are modelled as \<^typ>\<open>real\<close>, the numbers they denote; comparisons
  are exact there. The float operations of the deduplicator and of the extraction loop
  round as binary64 does; the thresholds and boxes of the hazard classifier and of the
  grid locator are taken at their decimal values.
  Strings are \<^typ>\<open>string\<close> restricted to ASCII, so \<open>lower\<close>, \<open>upper\<close> and
  \<open>strip\<close> act on ASCII letters and ASCII white space only.
\<close>

text \<open>The \<open>bbox\<close> dict \<open>{"x", "y", "w", "h"}\<close> of a detection.\<close>

record bbox =
  bbox_x :: real
  bbox_y :: real
  bbox_w :: real
  bbox_h :: real

text \<open>
  The detection dict as \<open>detect_objects_with_yolo\<close> builds it
  (\<open>analyze_frames_openrouter.py\<close>, lines 129--137): every key is present, so the
  defaults of \<open>dict.get\<close> in its consumers are never taken.
\<close>

record detection =
  class_name :: string
  confidence :: real
  bbox :: bbox
  safety_category :: string
  potential_hazard :: bool
  model_used :: string
  detection_id :: string

section \<open>Strings\<close>

text \<open>The ASCII letters; \<open>str.lower\<close> and \<open>str.upper\<close> leave every other ASCII character alone.\<close>

definition upper_letters :: string where
  "upper_letters = ''ABCDEFGHIJKLMNOPQRSTUVWXYZ''"

definition lower_letters :: string where
  "lower_letters = ''abcdefghijklmnopqrstuvwxyz''"

definition lower_char :: "char \<Rightarrow> char" where
  "lower_char c = (case map_of (zip upper_letters lower_letters) c of Some l \<Rightarrow> l | None \<Rightarrow> c)"

definition upper_char :: "char \<Rightarrow> char" where
  "upper_char c = (case map_of (zip lower_letters upper_letters) c of Some l \<Rightarrow> l | None \<Rightarrow> c)"

definition lower :: "string \<Rightarrow> string" where
  "lower s = map lower_char s"

definition upper :: "string \<Rightarrow> string" where
  "upper s = map upper_char s"

text \<open>\<open>starts_with p s\<close>: \<open>s.startswith(p)\<close>.\<close>

fun starts_with :: "string \<Rightarrow> string \<Rightarrow> bool" where
  "starts_with [] s = True"
| "starts_with (p # ps) [] = False"
| "starts_with (p # ps) (c # cs) = (p = c \<and> starts_with ps cs)"

text \<open>\<open>contains item s\<close>: the substring test \<open>item in s\<close>.\<close>

fun contains :: "string \<Rightarrow> string \<Rightarrow> bool" where
  "contains item [] = (item = [])"
| "contains item (c # cs) = (starts_with item (c # cs) \<or> contains item cs)"

text \<open>\<open>any_in items s\<close>: \<open>any(item in s for item in items)\<close>.\<close>

definition any_in :: "string list \<Rightarrow> string \<Rightarrow> bool" where
  "any_in items s = list_ex (\<lambda>item. contains item s) items"

section \<open>Double arithmetic\<close>

text \<open>
  A Python float is a binary64 number, given here as the real it denotes. The
  operations \<open>+\<close>, \<open>-\<close>, \<open>*\<close> and \<open>/\<close> on floats return the exact result rounded
  to the nearest binary64 number, ties to the even significand; \<open>fl\<close> is that
  rounding, gradual underflow included. Results beyond the largest binary64 number
  (the infinities) and NaN are outside the model.
\<close>

text \<open>The number of binary digits of a positive integer.\<close>

function bit_length :: "int \<Rightarrow> int" where
  "bit_length n = (if n \<le> 0 then 0 else 1 + bit_length (n div 2))"
  by pat_completeness auto
termination
  by (relation "measure nat") auto

definition pow2 :: "int \<Rightarrow> real" where
  "pow2 e = (if e \<ge> 0 then 2 ^ nat e else 1 / 2 ^ nat (- e))"

text \<open>For a positive \<open>x\<close>, the exponent \<open>e\<close> with \<open>2^e \<le> x < 2^(e+1)\<close>.\<close>

definition exponent_of :: "real \<Rightarrow> int" where
  "exponent_of x =
     (if x \<ge> 1 then bit_length \<lfloor>x\<rfloor> - 1
      else (let k = bit_length \<lfloor>1 / x\<rfloor> - 1
            in if 1 / x = pow2 k then - k else - k - 1))"

text \<open>The nearest integer, the even one of two that are equally near.\<close>

definition round_half_even :: "real \<Rightarrow> int" where
  "round_half_even t =
     (let n = \<lfloor>t\<rfloor>; r = t - of_int n
      in if r < 1 / 2 then n else if r > 1 / 2 then n + 1 else if even n then n else n + 1)"

text \<open>
  Rounding to binary64: a significand of 53 binary digits, and the spacing
  \<open>2^(-1074)\<close> below \<open>2^(-1022)\<close>.
\<close>

definition fl :: "real \<Rightarrow> real" where
  "fl x =
     (if x = 0 then 0
      else (let q = pow2 (max (exponent_of \<bar>x\<bar>) (- 1022) - 52)
            in sgn x * of_int (round_half_even (\<bar>x\<bar> / q)) * q))"

text \<open>
  The operator \<open>**\<close> on floats calls the \<open>pow\<close> of the C library, which is outside
  the repository and need not round correctly: it is a parameter. \<open>None\<close> stands for
  the \<open>OverflowError\<close> that \<open>**\<close> raises when the result is out of range.
\<close>

type_synonym power = "real \<Rightarrow> real \<Rightarrow> real option"

text \<open>The integer square root, two binary digits at a time.\<close>

definition isqrt_step :: "int \<Rightarrow> int \<Rightarrow> int" where
  "isqrt_step n r = (if (r + 1) * (r + 1) \<le> n then r + 1 else r)"

function isqrt :: "int \<Rightarrow> int" where
  "isqrt n = (if n < 2 then n else isqrt_step n (2 * isqrt (n div 4)))"
  by pat_completeness auto
termination
  by (relation "measure nat") auto

text \<open>The square root of a positive number, rounded to binary64.\<close>

definition fl_sqrt :: "real \<Rightarrow> real" where
  "fl_sqrt x =
     (if x \<le> 0 then 0
      else (let q = pow2 (exponent_of x div 2 - 52);
                t = x / (q * q);
                n = isqrt \<lfloor>t\<rfloor>;
                h = of_int (n * n + n) + 1 / 4
            in (if t < h then of_int n
                else if t > h then of_int (n + 1)
                else if even n then of_int n else of_int (n + 1)) * q))"

text \<open>
  A \<open>pow\<close> that rounds correctly at the two exponents the repository uses, the square
  and the square root, as the C libraries in use do for the inputs below.
\<close>

definition pow_rounded :: power where
  "pow_rounded x y =
     (if y = 2 then Some (fl (x * x))
      else if y = 1 / 2 \<and> 0 \<le> x then Some (fl_sqrt x)
      else None)"

section \<open>DetectionDeduplicator: \<open>remove_duplicate_detections\<close>\<close>

text \<open>The exact center of a box, as the pathway test of the hazard classifier reads it.\<close>

definition center_x :: "bbox \<Rightarrow> real" where
  "center_x b = bbox_x b + bbox_w b / 2"

definition center_y :: "bbox \<Rightarrow> real" where
  "center_y b = bbox_y b + bbox_h b / 2"

text \<open>
  The center as the deduplicator computes it in floats:
  \<open>(bbox['x'] + bbox['w']/2, bbox['y'] + bbox['h']/2)\<close>.
\<close>

definition float_center_x :: "bbox \<Rightarrow> real" where
  "float_center_x b = fl (bbox_x b + fl (bbox_w b / 2))"

definition float_center_y :: "bbox \<Rightarrow> real" where
  "float_center_y b = fl (bbox_y b + fl (bbox_h b / 2))"

text \<open>
  \<open>distance = ((center1[0] - center2[0])**2 + (center1[1] - center2[1])**2)**0.5\<close>,
  \<open>center1\<close> of the arriving detection and \<open>center2\<close> of the accepted one, with every
  operation rounded; \<open>None\<close> when a power raises.
\<close>

definition center_distance :: "power \<Rightarrow> detection \<Rightarrow> detection \<Rightarrow> real option" where
  "center_distance pw d e =
     (case pw (fl (float_center_x (bbox d) - float_center_x (bbox e))) 2 of
        None \<Rightarrow> None
      | Some sx \<Rightarrow>
          (case pw (fl (float_center_y (bbox d) - float_center_y (bbox e))) 2 of
             None \<Rightarrow> None
           | Some sy \<Rightarrow> pw (fl (sx + sy)) (1 / 2)))"

text \<open>
  The Euclidean distance of the two exact centers, which the float expression
  approximates.
\<close>

definition euclidean_distance :: "detection \<Rightarrow> detection \<Rightarrow> real" where
  "euclidean_distance d e =
     sqrt ((center_x (bbox d) - center_x (bbox e))\<^sup>2 + (center_y (bbox d) - center_y (bbox e))\<^sup>2)"

text \<open>
  The inner loop \<open>for existing in unique_detections\<close>: the fourth argument is what is
  left to scan, the fifth the accepted list. The result is \<open>is_duplicate\<close> and the
  accepted list after the scan, \<open>None\<close> when the distance raises; \<open>list.remove\<close>
  deletes the first equal element, which is \<^const>\<open>remove1\<close>, and the \<open>break\<close> ends the
  scan at the first close same-class detection.
\<close>

fun scan_existing ::
  "power \<Rightarrow> detection \<Rightarrow> real \<Rightarrow> detection list \<Rightarrow> detection list \<Rightarrow>
     (bool \<times> detection list) option" where
  "scan_existing pw d thr [] u = Some (False, u)"
| "scan_existing pw d thr (e # es) u =
     (if class_name d = class_name e then
        (case center_distance pw d e of
           None \<Rightarrow> None
         | Some distance \<Rightarrow>
             (if distance < thr then
                Some (True, if confidence d > confidence e then remove1 e u @ [d] else u)
              else scan_existing pw d thr es u))
      else scan_existing pw d thr es u)"

text \<open>One iteration of the outer loop \<open>for detection in detections\<close>.\<close>

definition dedup_step :: "power \<Rightarrow> real \<Rightarrow> detection list \<Rightarrow> detection \<Rightarrow> detection list option" where
  "dedup_step pw thr u d =
     (case scan_existing pw d thr u u of
        None \<Rightarrow> None
      | Some (is_duplicate, u') \<Rightarrow> Some (if is_duplicate then u' else u' @ [d]))"

text \<open>The outer loop; an exception of an iteration ends it.\<close>

fun dedup_loop :: "power \<Rightarrow> real \<Rightarrow> detection list \<Rightarrow> detection list \<Rightarrow> detection list option" where
  "dedup_loop pw thr u [] = Some u"
| "dedup_loop pw thr u (d # ds) =
     (case dedup_step pw thr u d of
        None \<Rightarrow> None
      | Some u' \<Rightarrow> dedup_loop pw thr u' ds)"

definition remove_duplicate_detections :: "power \<Rightarrow> detection list \<Rightarrow> real \<Rightarrow> detection list option" where
  "remove_duplicate_detections pw detections distance_threshold =
     (if detections = [] then Some [] else dedup_loop pw distance_threshold [] detections)"

text \<open>
  The default \<open>distance_threshold=0.1\<close>, the only value the repository calls it with:
  the binary64 number that the literal \<open>0.1\<close> denotes.
\<close>

definition default_distance_threshold :: real where
  "default_distance_threshold = fl 0.1"

section \<open>HazardClassifier\<close>

definition get_adaptive_confidence_threshold :: "string \<Rightarrow> real" where
  "get_adaptive_confidence_threshold cn =
     (let class_lower = lower cn in
      if any_in [''car'', ''truck'', ''forklift'', ''vehicle'', ''bicycle''] class_lower then 0.20
      else if any_in [''table'', ''desk'', ''cabinet'', ''ladder'', ''cart'', ''box'', ''container'']
                class_lower then 0.25
      else if any_in [''person'', ''chair'', ''bag'', ''bottle'', ''phone''] class_lower then 0.35
      else 0.30)"

text \<open>The values of the dict \<open>critical_hazards\<close>, in its order.\<close>

definition critical_hazards :: "string list list" where
  "critical_hazards =
     [[''car'', ''truck'', ''bus'', ''motorcycle'', ''bicycle'', ''motorbike''],
      [''table'', ''desk'', ''cabinet'', ''shelf'', ''couch'', ''wardrobe''],
      [''box'', ''container'', ''barrel'', ''bin'', ''crate'', ''pallet''],
      [''ladder'', ''cart'', ''trolley'', ''machine'', ''forklift'']]"

definition in_pathway :: "bbox \<Rightarrow> bool" where
  "in_pathway b =
     (0.2 \<le> center_x b \<and> center_x b \<le> 0.8 \<and> 0.3 \<le> center_y b \<and> center_y b \<le> 0.9)"

text \<open>
  The loop over \<open>critical_hazards.items()\<close> returns \<open>True\<close> at the first category with
  a matching keyword whose pathway test passes; the test does not depend on the
  category.
\<close>

fun hazard_loop :: "string list list \<Rightarrow> string \<Rightarrow> bbox \<Rightarrow> bool" where
  "hazard_loop [] class_lower b = False"
| "hazard_loop (items # rest) class_lower b =
     (if any_in items class_lower \<and> in_pathway b then True
      else hazard_loop rest class_lower b)"

definition is_critical_safety_hazard :: "string \<Rightarrow> real \<Rightarrow> bbox \<Rightarrow> real \<Rightarrow> bool" where
  "is_critical_safety_hazard cn conf b base_threshold =
     (let adaptive_threshold = get_adaptive_confidence_threshold cn;
          effective_threshold = max base_threshold adaptive_threshold
      in if conf < effective_threshold then False
         else hazard_loop critical_hazards (lower cn) b)"

section \<open>GridLocator: \<open>convert_grid_cells_to_bounding_box\<close>\<close>

text \<open>The ASCII characters for which \<open>str.isspace\<close> holds; \<open>str.strip\<close> removes them at both ends.\<close>

definition whitespace :: "char list" where
  "whitespace = [CHR 0x09, CHR 0x0A, CHR 0x0B, CHR 0x0C, CHR 0x0D,
                 CHR 0x1C, CHR 0x1D, CHR 0x1E, CHR 0x1F, CHR 0x20]"

definition is_space :: "char \<Rightarrow> bool" where
  "is_space c = (c \<in> set whitespace)"

definition strip :: "string \<Rightarrow> string" where
  "strip s = rev (dropWhile is_space (rev (dropWhile is_space s)))"

text \<open>\<open>s.replace("-", ",")\<close>.\<close>

definition replace_dash :: "string \<Rightarrow> string" where
  "replace_dash s = map (\<lambda>c. if c = CHR ''-'' then CHR '','' else c) s"

text \<open>\<open>s.split(sep)\<close> for a one-character separator: the empty string gives one empty piece.\<close>

fun split_on :: "char \<Rightarrow> string \<Rightarrow> string list" where
  "split_on sep [] = [[]]"
| "split_on sep (c # cs) =
     (if c = sep then [] # split_on sep cs
      else (case split_on sep cs of
              [] \<Rightarrow> [[c]]
            | w # ws \<Rightarrow> (c # w) # ws))"

definition digit_value :: "char \<Rightarrow> nat option" where
  "digit_value c = map_of (zip ''0123456789'' [0, 1, 2, 3, 4, 5, 6, 7, 8, 9]) c"

text \<open>
  The digits of \<open>int(s)\<close> after the first one: digits, each optionally preceded by one
  underscore. \<open>None\<close> is \<open>ValueError\<close>.
\<close>

fun int_tail :: "nat \<Rightarrow> string \<Rightarrow> nat option" where
  "int_tail acc [] = Some acc"
| "int_tail acc [c] =
     (case digit_value c of None \<Rightarrow> None | Some v \<Rightarrow> Some (10 * acc + v))"
| "int_tail acc (c # d # ds) =
     (case digit_value c of
        Some v \<Rightarrow> int_tail (10 * acc + v) (d # ds)
      | None \<Rightarrow>
          (if c = CHR ''_'' then
             (case digit_value d of None \<Rightarrow> None | Some v \<Rightarrow> int_tail (10 * acc + v) ds)
           else None))"

definition int_digits :: "string \<Rightarrow> nat option" where
  "int_digits s =
     (case s of
        [] \<Rightarrow> None
      | c # cs \<Rightarrow> (case digit_value c of None \<Rightarrow> None | Some v \<Rightarrow> int_tail v cs))"

text \<open>
  The white space that \<open>int\<close> skips around an ASCII string: unlike \<open>str.strip\<close> it
  does not skip the four separators \<open>0x1C\<close> to \<open>0x1F\<close>.
\<close>

definition int_whitespace :: "char list" where
  "int_whitespace = [CHR 0x09, CHR 0x0A, CHR 0x0B, CHR 0x0C, CHR 0x0D, CHR 0x20]"

definition is_int_space :: "char \<Rightarrow> bool" where
  "is_int_space c = (c \<in> set int_whitespace)"

definition int_strip :: "string \<Rightarrow> string" where
  "int_strip s = rev (dropWhile is_int_space (rev (dropWhile is_int_space s)))"

text \<open>
  \<open>int(s)\<close> in base 10: white space around, an optional sign, then the digits.
  \<open>None\<close> is \<open>ValueError\<close>. The interpreter's limit on the number of digits is not
  modelled.
\<close>

definition py_int :: "string \<Rightarrow> int option" where
  "py_int s =
     (case int_strip s of
        [] \<Rightarrow> None
      | c # cs \<Rightarrow>
          (if c = CHR ''+'' then map_option int (int_digits cs)
           else if c = CHR ''-'' then map_option (\<lambda>n. - int n) (int_digits cs)
           else map_option int (int_digits (c # cs))))"

text \<open>
  One iteration of \<open>for cell in cells\<close>: the grid position \<open>(row_index, col_index)\<close>
  the cell adds to \<open>grid_positions\<close>, if any.
\<close>

definition parse_cell :: "string \<Rightarrow> (nat \<times> nat) option" where
  "parse_cell cell0 =
     (let cell = strip (upper cell0) in
      if length cell \<ge> 2 then
        (case py_int (tl cell) of
           None \<Rightarrow> None
         | Some n \<Rightarrow>
             (let col_index = n - 1;
                  row_letter = hd cell
              in if row_letter = CHR ''A'' then
                   (if 0 \<le> col_index \<and> col_index \<le> 3 then Some (0, nat col_index) else None)
                 else if row_letter = CHR ''B'' then
                   (if 0 \<le> col_index \<and> col_index \<le> 3 then Some (1, nat col_index) else None)
                 else if row_letter = CHR ''C'' then
                   (if 0 \<le> col_index \<and> col_index \<le> 3 then Some (2, nat col_index) else None)
                 else None))
      else None)"

definition grid_cells :: "string \<Rightarrow> string list" where
  "grid_cells s = map strip (split_on CHR '','' (replace_dash s))"

definition grid_positions :: "string list \<Rightarrow> (nat \<times> nat) list" where
  "grid_positions cells = List.map_filter parse_cell cells"

definition default_box :: bbox where
  "default_box = \<lparr>bbox_x = 0.1, bbox_y = 0.1, bbox_w = 0.2, bbox_h = 0.2\<rparr>"

text \<open>\<open>min\<close> and \<open>max\<close> of a non-empty list, given as head and tail.\<close>

definition min_of :: "nat \<Rightarrow> nat list \<Rightarrow> nat" where
  "min_of x xs = fold min xs x"

definition max_of :: "nat \<Rightarrow> nat list \<Rightarrow> nat" where
  "max_of x xs = fold max xs x"

definition box_of_positions :: "(nat \<times> nat) \<Rightarrow> (nat \<times> nat) list \<Rightarrow> bbox" where
  "box_of_positions p ps =
     (let min_row = min_of (fst p) (map fst ps);
          max_row = max_of (fst p) (map fst ps);
          min_col = min_of (snd p) (map snd ps);
          max_col = max_of (snd p) (map snd ps);
          cell_width = 1 / 4 :: real;
          cell_height = 1 / 3 :: real;
          x0 = real min_col * cell_width;
          y0 = real min_row * cell_height;
          w0 = (real max_col - real min_col + 1) * cell_width;
          h0 = (real max_row - real min_row + 1) * cell_height;
          x = max 0 (min 1 x0);
          y = max 0 (min 1 y0);
          w = max 0.05 (min (1 - x) w0);
          h = max 0.05 (min (1 - y) h0)
      in \<lparr>bbox_x = x, bbox_y = y, bbox_w = w, bbox_h = h\<rparr>)"

text \<open>
  For a string argument the body raises nowhere but in \<open>int\<close>, whose \<open>ValueError\<close> is
  caught at the cell; the outer handler returns the default box as well.
\<close>

definition convert_grid_cells_to_bounding_box :: "string \<Rightarrow> bbox" where
  "convert_grid_cells_to_bounding_box grid_cells_string =
     (if grid_cells_string = [] \<or> strip grid_cells_string = [] then default_box
      else
        (let cells = grid_cells grid_cells_string in
         if cells = [] then default_box
         else
           (case grid_positions cells of
              [] \<Rightarrow> default_box
            | p # ps \<Rightarrow> box_of_positions p ps)))"

section \<open>Concrete inputs\<close>


text \<open>
  Two chairs at the same box with confidences 0.5 and 0.75, the first chair seen again by
  another model, and a table at that box. All their numbers are binary64 numbers.
\<close>

definition chair_low :: detection where
  "chair_low = \<lparr>class_name = ''chair'', confidence = 0.5,
            bbox = \<lparr>bbox_x = 0.375, bbox_y = 0.5, bbox_w = 0.25, bbox_h = 0.25\<rparr>,
            safety_category = ''equipment'', potential_hazard = False,
            model_used = ''nano'', detection_id = ''chair_0.375_0.500''\<rparr>"

definition chair_high :: detection where
  "chair_high = chair_low\<lparr>confidence := 0.75, model_used := ''small''\<rparr>"

definition chair_again :: detection where
  "chair_again = chair_low\<lparr>model_used := ''medium''\<rparr>"

definition table_high :: detection where
  "table_high = chair_high\<lparr>class_name := ''dining table'', detection_id := ''dining table_0.375_0.500''\<rparr>"

text \<open>
  Two chairs whose boxes are \<open>(0.5, 0.4, 0.2, 0.2)\<close> and
  \<open>(0.6100000000000001, 0.5299999999999999, 0.1, 0.1)\<close> as Python reads these
  literals, each coordinate being the binary64 number of its literal, and the second
  chair with the confidence of the first.
\<close>

definition chair_wide :: detection where
  "chair_wide = \<lparr>class_name = ''chair'', confidence = 0.5,
            bbox = \<lparr>bbox_x = 1 / 2, bbox_y = 3602879701896397 / 9007199254740992,
                    bbox_w = 3602879701896397 / 18014398509481984,
                    bbox_h = 3602879701896397 / 18014398509481984\<rparr>,
            safety_category = ''equipment'', potential_hazard = False,
            model_used = ''nano'', detection_id = ''chair_0.500_0.400''\<rparr>"

definition chair_small :: detection where
  "chair_small = \<lparr>class_name = ''chair'', confidence = 0.75,
            bbox = \<lparr>bbox_x = 2747195772696003 / 4503599627370496,
                    bbox_y = 4773815605012725 / 9007199254740992,
                    bbox_w = 3602879701896397 / 36028797018963968,
                    bbox_h = 3602879701896397 / 36028797018963968\<rparr>,
            safety_category = ''equipment'', potential_hazard = False,
            model_used = ''small'', detection_id = ''chair_0.610_0.530''\<rparr>"

definition chair_small_tie :: detection where
  "chair_small_tie = chair_small\<lparr>confidence := 0.5\<rparr>"

section \<open>FrameSampler, post-extraction: \<open>filter_unique_frames\<close>\<close>

text \<open>
  Frame files are file names. The comparison of the current frame with a retained one,
  \<open>calculate_image_similarity(current_path, unique_path, similarity_threshold)\<close> with
  the two \<open>os.path.join\<close> before it, is a parameter \<open>cmp\<close>: \<open>Some b\<close> is the verdict
  \<open>b\<close>, and \<open>None\<close> stands for an exception raised there, which sends
  \<open>filter_unique_frames\<close> to its \<open>except\<close> branch.
\<close>

type_synonym compare = "string \<Rightarrow> string \<Rightarrow> bool option"

text \<open>\<open>xs[::step]\<close> for a positive step.\<close>

fun stride :: "nat \<Rightarrow> 'a list \<Rightarrow> 'a list" where
  "stride step [] = []"
| "stride step (x # xs) = x # stride step (drop (step - 1) xs)"

text \<open>\<open>xs[::step]\<close>; a zero step raises \<open>ValueError\<close>, which is \<open>None\<close>.\<close>

definition py_slice_step :: "nat \<Rightarrow> 'a list \<Rightarrow> 'a list option" where
  "py_slice_step step xs = (if step = 0 then None else Some (stride step xs))"

definition min_frame_gap :: nat where
  "min_frame_gap = 1"

definition max_frames :: nat where
  "max_frames = 12"

text \<open>\<open>unique_frames[-3:] if len(unique_frames) > 3 else unique_frames\<close>.\<close>

definition recent_unique_frames :: "string list \<Rightarrow> string list" where
  "recent_unique_frames unique_frames =
     (if length unique_frames > 3 then drop (length unique_frames - 3) unique_frames
      else unique_frames)"

text \<open>
  The loop \<open>for unique_frame in recent_unique_frames\<close>: \<open>Some is_unique\<close>, with the
  \<open>break\<close> at the first similar frame.
\<close>

fun is_unique_among :: "compare \<Rightarrow> string \<Rightarrow> string list \<Rightarrow> bool option" where
  "is_unique_among cmp current [] = Some True"
| "is_unique_among cmp current (u # us) =
     (case cmp current u of
        None \<Rightarrow> None
      | Some True \<Rightarrow> Some False
      | Some False \<Rightarrow> is_unique_among cmp current us)"

text \<open>
  The loop \<open>for i, current_frame in enumerate(frame_files[1:], 1)\<close> over the state
  \<open>(unique_frames, last_selected_index)\<close>.
\<close>

fun primary_loop ::
  "compare \<Rightarrow> (nat \<times> string) list \<Rightarrow> string list \<times> nat \<Rightarrow> (string list \<times> nat) option" where
  "primary_loop cmp [] st = Some st"
| "primary_loop cmp ((i, current) # rest) (unique_frames, last_selected_index) =
     (if int i - int last_selected_index < int min_frame_gap then
        primary_loop cmp rest (unique_frames, last_selected_index)
      else
        (case is_unique_among cmp current (recent_unique_frames unique_frames) of
           None \<Rightarrow> None
         | Some True \<Rightarrow> primary_loop cmp rest (unique_frames @ [current], i)
         | Some False \<Rightarrow> primary_loop cmp rest (unique_frames, last_selected_index)))"

text \<open>The \<open>try\<close> block for a non-empty \<open>frame_files = f # fs\<close>; \<open>None\<close> when it raises.\<close>

definition primary_filter :: "compare \<Rightarrow> string \<Rightarrow> string list \<Rightarrow> string list option" where
  "primary_filter cmp f fs =
     (case primary_loop cmp (zip [1 ..< Suc (length fs)] fs) ([f], 0) of
        None \<Rightarrow> None
      | Some (unique_frames, last_selected_index) \<Rightarrow>
          (if length unique_frames > 12 then
             (case py_slice_step (length unique_frames div 12) unique_frames of
                None \<Rightarrow> None
              | Some sampled \<Rightarrow> Some (take 12 sampled))
           else Some unique_frames))"

text \<open>The \<open>except\<close> block: stride sampling; \<open>None\<close> when it raises in turn.\<close>

definition fallback_sampling :: "string list \<Rightarrow> string list option" where
  "fallback_sampling frame_files =
     (let total_frames = length frame_files in
      if total_frames \<le> 5 then Some frame_files
      else
        (let step = (if total_frames \<le> 15 then 3
                     else if total_frames \<le> 30 then 5
                     else max 4 (total_frames div 12))
         in map_option (take 12) (py_slice_step step frame_files)))"

definition filter_unique_frames :: "compare \<Rightarrow> string list \<Rightarrow> string list option" where
  "filter_unique_frames cmp frame_files =
     (case frame_files of
        [] \<Rightarrow> Some []
      | f # fs \<Rightarrow>
          (case primary_filter cmp f fs of
             Some kept \<Rightarrow> Some kept
           | None \<Rightarrow> fallback_sampling frame_files))"

text \<open>File names \<open>frame_0\<close>, \<open>frame_1\<close>, ... written in unary, to have any number of distinct ones.\<close>

definition frame_name :: "nat \<Rightarrow> string" where
  "frame_name n = ''frame_'' @ replicate n CHR ''i''"

definition frame_names :: "nat \<Rightarrow> string list" where
  "frame_names n = map frame_name [0 ..< n]"

text \<open>Three comparisons: one that raises, one that finds no two frames similar, one that finds all similar.\<close>

definition cmp_raises :: compare where
  "cmp_raises a b = None"

definition cmp_all_different :: compare where
  "cmp_all_different a b = Some False"

definition cmp_all_similar :: compare where
  "cmp_all_similar a b = Some True"

section \<open>DetectionNormalizer: \<open>classify_object_for_safety\<close>, \<open>is_realistic_detection\<close>\<close>

text \<open>The dict \<open>safety_categories\<close>, in its order; the first category with a matching item wins.\<close>

definition safety_categories :: "(string \<times> string list) list" where
  "safety_categories =
     [(''vehicle'', [''car'', ''truck'', ''bus'', ''motorcycle'', ''bicycle'']),
      (''person'', [''person'']),
      (''equipment'', [''chair'', ''desk'', ''table'', ''laptop'', ''monitor'', ''keyboard'']),
      (''container'', [''bottle'', ''cup'', ''bowl'', ''box'', ''suitcase'', ''handbag'', ''backpack'']),
      (''obstacles'', [''bench'', ''potted plant'', ''vase'', ''sports ball'']),
      (''waste'', [''trash'', ''recycling'', ''garbage'']),
      (''warning'', [''stop sign'', ''traffic light'', ''fire hydrant'']),
      (''structure'', [''door'', ''window'', ''wall''])]"

fun classify_loop :: "(string \<times> string list) list \<Rightarrow> string \<Rightarrow> string" where
  "classify_loop [] class_lower = ''other''"
| "classify_loop ((category, items) # rest) class_lower =
     (if any_in items class_lower then category else classify_loop rest class_lower)"

definition classify_object_for_safety :: "string \<Rightarrow> string" where
  "classify_object_for_safety cn = classify_loop safety_categories (lower cn)"

definition is_realistic_detection :: "string \<Rightarrow> bbox \<Rightarrow> real \<Rightarrow> bool" where
  "is_realistic_detection cn b conf =
     (let w = bbox_w b; h = bbox_h b; area = w * h; class_lower = lower cn in
      if area < 0.001 then False
      else if area > 0.5 then False
      else if any_in [''car'', ''truck'', ''bus''] class_lower \<and> (area < 0.01 \<or> area > 0.4) then False
      else if contains ''person'' class_lower \<and> (area < 0.005 \<or> area > 0.2) then False
      else
        (let cx = bbox_x b + w / 2; cy = bbox_y b + h / 2 in
         if (cx < 0.05 \<or> cx > 0.95 \<or> cy < 0.05 \<or> cy > 0.95) \<and> conf < 0.7 then False
         else True))"

section \<open>MitigationSynthesizer: \<open>generate_mitigation_strategies\<close>\<close>

text \<open>The keys of the dict \<open>object_categories\<close>.\<close>

datatype bucket =
  Vehicles | Furniture | Personal_items | Containers | Trip_hazards | Equipment | People
  | Other_hazards

definition all_buckets :: "bucket list" where
  "all_buckets =
     [Vehicles, Furniture, Personal_items, Containers, Trip_hazards, Equipment, People,
      Other_hazards]"

text \<open>The \<open>if\<close>/\<open>elif\<close> chain that picks the bucket of a hazard.\<close>

definition bucket_of :: "detection \<Rightarrow> bucket" where
  "bucket_of obj =
     (let category = safety_category obj; cl = lower (class_name obj) in
      if category = ''vehicle'' \<or> any_in [''car'', ''truck'', ''bus'', ''motorcycle'', ''bicycle''] cl
        then Vehicles
      else if category = ''person'' \<or> contains ''person'' cl then People
      else if any_in [''chair'', ''table'', ''bench'', ''desk'', ''cabinet''] cl then Furniture
      else if any_in [''bag'', ''suitcase'', ''backpack'', ''luggage''] cl then Personal_items
      else if any_in [''box'', ''container'', ''barrel'', ''bucket''] cl then Containers
      else if any_in [''bottle'', ''cup'', ''ball'', ''book'', ''phone''] cl then Trip_hazards
      else if any_in [''monitor'', ''computer'', ''printer'', ''machine''] cl then Equipment
      else Other_hazards)"

text \<open>One iteration of \<open>for obj in detected_objects\<close>; only hazards are put in a bucket.\<close>

definition add_object :: "(bucket \<Rightarrow> detection list) \<Rightarrow> detection \<Rightarrow> (bucket \<Rightarrow> detection list)" where
  "add_object cats obj =
     (if potential_hazard obj then cats(bucket_of obj := cats (bucket_of obj) @ [obj]) else cats)"

definition object_categories :: "detection list \<Rightarrow> bucket \<Rightarrow> detection list" where
  "object_categories detected_objects = foldl add_object (\<lambda>b. []) detected_objects"

text \<open>
  A mitigation dict. Its fixed texts \<open>type\<close>, \<open>severity\<close>, \<open>urgency\<close>, \<open>timeline\<close> and
  \<open>responsible_party\<close> are kept; the lists \<open>specific_risks\<close> and \<open>mitigation_steps\<close>
  and the remaining fixed texts are left out. The computed \<open>description\<close> is kept as
  what it is formatted from, the members of the bucket (\<open>subjects\<close>).
\<close>

record mitigation =
  mtype :: string
  severity :: string
  urgency :: string
  timeline :: string
  responsible_party :: string
  subjects :: "detection list"

definition vehicle_record :: "detection list \<Rightarrow> mitigation" where
  "vehicle_record objs =
     \<lparr>mtype = ''vehicle_parking_violation'', severity = ''critical'', urgency = ''immediate'',
      timeline = ''Immediate action required within 30 minutes'',
      responsible_party = ''Security/Facilities Management'', subjects = objs\<rparr>"

definition furniture_record :: "detection list \<Rightarrow> mitigation" where
  "furniture_record objs =
     \<lparr>mtype = ''furniture_obstruction'', severity = ''high'', urgency = ''short-term'',
      timeline = ''Complete within 24 hours'',
      responsible_party = ''Warehouse Operations/Maintenance'', subjects = objs\<rparr>"

definition container_record :: "detection list \<Rightarrow> mitigation" where
  "container_record objs =
     \<lparr>mtype = ''container_storage_violation'', severity = ''medium'', urgency = ''short-term'',
      timeline = ''Complete within 2-3 days'',
      responsible_party = ''Warehouse Staff/Supervisors'', subjects = objs\<rparr>"

definition trip_record :: "detection list \<Rightarrow> mitigation" where
  "trip_record objs =
     \<lparr>mtype = ''trip_hazard_elimination'', severity = ''medium'', urgency = ''immediate'',
      timeline = ''Immediate removal within 1 hour'',
      responsible_party = ''Cleaning/Maintenance Staff'', subjects = objs\<rparr>"

definition personal_record :: "detection list \<Rightarrow> mitigation" where
  "personal_record objs =
     \<lparr>mtype = ''personal_belongings_management'', severity = ''low'', urgency = ''short-term'',
      timeline = ''Complete within 1 week'',
      responsible_party = ''HR/Facilities Management'', subjects = objs\<rparr>"

definition people_record :: "detection list \<Rightarrow> mitigation" where
  "people_record objs =
     \<lparr>mtype = ''personnel_safety_training'', severity = ''medium'', urgency = ''short-term'',
      timeline = ''Initial briefing within 24 hours, full training within 1 month'',
      responsible_party = ''Safety Officer/HR Department'', subjects = objs\<rparr>"

definition ai_parking_record :: mitigation where
  "ai_parking_record =
     \<lparr>mtype = ''ai_detected_parking_violation'', severity = ''critical'', urgency = ''immediate'',
      timeline = ''Immediate action required'',
      responsible_party = ''Security/Management'', subjects = []\<rparr>"

definition ai_waste_record :: mitigation where
  "ai_waste_record =
     \<lparr>mtype = ''ai_detected_waste_debris'', severity = ''medium'', urgency = ''immediate'',
      timeline = ''Complete cleaning within 2 hours'',
      responsible_party = ''Cleaning/Maintenance Staff'', subjects = []\<rparr>"

definition preventive_record :: mitigation where
  "preventive_record =
     \<lparr>mtype = ''preventive_maintenance'', severity = ''low'', urgency = ''long-term'',
      timeline = ''Ongoing preventive program'',
      responsible_party = ''Safety Committee'', subjects = []\<rparr>"

text \<open>\<open>if object_categories[key]: mitigations.append(...)\<close>.\<close>

definition emit_if_any :: "(detection list \<Rightarrow> mitigation) \<Rightarrow> detection list \<Rightarrow> mitigation list" where
  "emit_if_any template objs = (if objs \<noteq> [] then [template objs] else [])"

text \<open>
  The two flags are \<open>ai_analysis.get("incorrectParking")\<close> and
  \<open>ai_analysis.get("wasteMaterial")\<close>. The records are appended in the order of the
  source; no record is appended for the buckets \<open>equipment\<close> and \<open>other_hazards\<close>, which
  are read only by \<open>any(object_categories.values())\<close>.
\<close>

definition generate_mitigation_strategies ::
  "detection list \<Rightarrow> bool \<Rightarrow> bool \<Rightarrow> mitigation list" where
  "generate_mitigation_strategies detected_objects incorrectParking wasteMaterial =
     (let cats = object_categories detected_objects in
      emit_if_any vehicle_record (cats Vehicles)
      @ emit_if_any furniture_record (cats Furniture)
      @ emit_if_any container_record (cats Containers)
      @ emit_if_any trip_record (cats Trip_hazards)
      @ emit_if_any personal_record (cats Personal_items)
      @ emit_if_any people_record (cats People)
      @ (if incorrectParking then [ai_parking_record] else [])
      @ (if wasteMaterial then [ai_waste_record] else [])
      @ (if \<not> list_ex (\<lambda>b. cats b \<noteq> []) all_buckets \<and> \<not> incorrectParking \<and> \<not> wasteMaterial
         then [preventive_record] else []))"

text \<open>The mitigation type a bucket's record would carry, for the six buckets that have a template.\<close>

definition bucket_type :: "bucket \<Rightarrow> string option" where
  "bucket_type b =
     (case b of
        Vehicles \<Rightarrow> Some ''vehicle_parking_violation''
      | Furniture \<Rightarrow> Some ''furniture_obstruction''
      | Containers \<Rightarrow> Some ''container_storage_violation''
      | Trip_hazards \<Rightarrow> Some ''trip_hazard_elimination''
      | Personal_items \<Rightarrow> Some ''personal_belongings_management''
      | People \<Rightarrow> Some ''personnel_safety_training''
      | Equipment \<Rightarrow> None
      | Other_hazards \<Rightarrow> None)"

text \<open>
  A couch in the middle of the pathway, as the detector reports the class \<open>couch\<close>:
  category \<open>other\<close>, a realistic box, and a hazard by \<open>is_critical_safety_hazard\<close>.
\<close>

definition det_couch :: detection where
  "det_couch = \<lparr>class_name = ''couch'', confidence = 0.9,
            bbox = \<lparr>bbox_x = 0.4, bbox_y = 0.5, bbox_w = 0.2, bbox_h = 0.2\<rparr>,
            safety_category = ''other'', potential_hazard = True,
            model_used = ''nano'', detection_id = ''couch_0.400_0.500''\<rparr>"

section \<open>SimilarityScorer: \<open>calculate_frame_similarity\<close>, \<open>calculate_image_similarity\<close>\<close>

text \<open>
  The image library is outside the repository, so what it computes is a parameter: a
  record of the calls the two scorers make, over a type \<open>'f\<close> of images. \<open>None\<close> from
  a call stands for an exception raised by it.
\<close>

record 'f cv =
  has_scikit_image :: bool
  imread :: "string \<Rightarrow> 'f option"
  resize :: "'f \<Rightarrow> 'f option"
  ssim :: "'f \<Rightarrow> 'f \<Rightarrow> real option"
  hist_correl :: "'f \<Rightarrow> 'f \<Rightarrow> real option"
  match_template :: "'f \<Rightarrow> 'f \<Rightarrow> real option"

text \<open>
  \<open>has_scikit_image\<close> is the module flag \<open>HAS_SCIKIT_IMAGE\<close>; \<open>imread\<close> is
  \<open>cv2.imread(path, cv2.IMREAD_GRAYSCALE)\<close>, whose \<open>None\<close> is the unreadable file;
  \<open>resize\<close> is the conversion to grey levels followed by \<open>cv2.resize\<close> to 160 by 120;
  \<open>hist_correl\<close> is the two \<open>cv2.calcHist\<close> and \<open>cv2.compareHist\<close> with
  \<open>HISTCMP_CORREL\<close>; \<open>match_template\<close> is \<open>cv2.matchTemplate\<close> with
  \<open>TM_CCOEFF_NORMED\<close> and the \<open>max_val\<close> of \<open>cv2.minMaxLoc\<close>.
\<close>

text \<open>\<open>max(similarity_scores) > threshold\<close> when there is a score, \<open>False\<close> otherwise.\<close>

definition scores_exceed :: "real list \<Rightarrow> real \<Rightarrow> bool" where
  "scores_exceed similarity_scores threshold =
     (case similarity_scores of
        [] \<Rightarrow> False
      | s # ss \<Rightarrow> fold max ss s > threshold)"

text \<open>The scores of the template matching, whose exceptions are swallowed.\<close>

definition template_scores :: "'f cv \<Rightarrow> 'f \<Rightarrow> 'f \<Rightarrow> real list" where
  "template_scores c g1 g2 = (case match_template c g1 g2 of None \<Rightarrow> [] | Some m \<Rightarrow> [m])"

text \<open>
  The list \<open>similarity_scores\<close> of \<open>calculate_frame_similarity\<close> for two resized
  images: the structural similarity when it is installed, the histogram correlation,
  the template match when it does not raise. \<open>None\<close> is an exception of \<open>ssim\<close> or
  of the histogram comparison, which ends in the outer handler.
\<close>

definition frame_scores :: "'f cv \<Rightarrow> 'f \<Rightarrow> 'f \<Rightarrow> real list option" where
  "frame_scores c g1 g2 =
     (case (if has_scikit_image c then map_option (\<lambda>s. [s]) (ssim c g1 g2) else Some []) of
        None \<Rightarrow> None
      | Some ssim_scores \<Rightarrow>
          (case hist_correl c g1 g2 of
             None \<Rightarrow> None
           | Some hist_score \<Rightarrow> Some (ssim_scores @ [hist_score] @ template_scores c g1 g2)))"

text \<open>
  \<open>calculate_frame_similarity\<close> of \<open>extract_frames_opencv.py\<close>. A frame argument is
  \<open>None\<close> or an image; the outer handler returns \<open>False\<close> on every exception.
\<close>

definition calculate_frame_similarity ::
  "'f cv \<Rightarrow> 'f option \<Rightarrow> 'f option \<Rightarrow> real \<Rightarrow> bool" where
  "calculate_frame_similarity c frame1 frame2 threshold =
     (case (frame1, frame2) of
        (Some f1, Some f2) \<Rightarrow>
          (case (resize c f1, resize c f2) of
             (Some g1, Some g2) \<Rightarrow>
               (case frame_scores c g1 g2 of
                  None \<Rightarrow> False
                | Some similarity_scores \<Rightarrow> scores_exceed similarity_scores threshold)
           | _ \<Rightarrow> False)
      | _ \<Rightarrow> False)"

text \<open>\<open>calculate_basic_similarity\<close>: the histogram correlation, \<open>0.0\<close> on an exception.\<close>

definition calculate_basic_similarity :: "'f cv \<Rightarrow> 'f \<Rightarrow> 'f \<Rightarrow> real" where
  "calculate_basic_similarity c img1 img2 =
     (case hist_correl c img1 img2 of None \<Rightarrow> 0 | Some correlation \<Rightarrow> correlation)"

text \<open>The list \<open>similarity_scores\<close> of \<open>calculate_image_similarity\<close>.\<close>

definition image_scores :: "'f cv \<Rightarrow> 'f \<Rightarrow> 'f \<Rightarrow> real list option" where
  "image_scores c r1 r2 =
     (case (if has_scikit_image c then map_option (\<lambda>s. [s]) (ssim c r1 r2) else Some []) of
        None \<Rightarrow> None
      | Some ssim_scores \<Rightarrow>
          Some (ssim_scores @ [calculate_basic_similarity c r1 r2] @ template_scores c r1 r2))"

text \<open>\<open>calculate_image_similarity\<close> of \<open>analyze_frames_openrouter.py\<close>, on two paths.\<close>

definition calculate_image_similarity ::
  "'f cv \<Rightarrow> string \<Rightarrow> string \<Rightarrow> real \<Rightarrow> bool" where
  "calculate_image_similarity c img1_path img2_path threshold =
     (case (imread c img1_path, imread c img2_path) of
        (Some img1, Some img2) \<Rightarrow>
          (case (resize c img1, resize c img2) of
             (Some r1, Some r2) \<Rightarrow>
               (case image_scores c r1 r2 of
                  None \<Rightarrow> False
                | Some similarity_scores \<Rightarrow> scores_exceed similarity_scores threshold)
           | _ \<Rightarrow> False)
      | _ \<Rightarrow> False)"

text \<open>
  A stand-in for the image library on images that are plain numbers: every file is
  readable and holds the image 7, structural similarity is not installed, template
  matching raises, and the histogram correlation attains its maximum 1 exactly on
  identical images.
\<close>

definition exact_match_score :: "nat \<Rightarrow> nat \<Rightarrow> real option" where
  "exact_match_score a b = Some (if a = b then 1 else 0)"

definition no_score :: "nat \<Rightarrow> nat \<Rightarrow> real option" where
  "no_score a b = None"

text \<open>A histogram comparison for which no two images correlate.\<close>

definition no_correlation :: "nat \<Rightarrow> nat \<Rightarrow> real option" where
  "no_correlation a b = Some 0"

definition read_seven :: "string \<Rightarrow> nat option" where
  "read_seven path = Some 7"

definition toy_cv :: "nat cv" where
  "toy_cv = \<lparr>has_scikit_image = False, imread = read_seven, resize = Some, ssim = no_score,
             hist_correl = exact_match_score, match_template = no_score\<rparr>"

text \<open>
  The same library with structural similarity installed and a template matching that
  answers, both with the maximum 1 exactly on identical images.
\<close>

definition full_cv :: "nat cv" where
  "full_cv = toy_cv\<lparr>has_scikit_image := True, ssim := exact_match_score,
                     match_template := exact_match_score\<rparr>"

section \<open>FrameSampler, extraction time: \<open>extract_frames_with_opencv\<close>\<close>

text \<open>What \<open>cap.set\<close>, \<open>cap.read\<close> and \<open>cv2.resize\<close> give for a frame number.\<close>

datatype 'f read_result = Read_error string | No_frame | Got 'f

text \<open>
  The opened \<open>cv2.VideoCapture\<close>: \<open>cap_total_frames\<close> is
  \<open>int(cap.get(cv2.CAP_PROP_FRAME_COUNT))\<close>.
\<close>

record 'f capture =
  isOpened :: bool
  cap_fps :: real
  cap_total_frames :: int
  cap_read :: "int \<Rightarrow> 'f read_result"

text \<open>
  The other calls of the loop: \<open>is_frame_quality_acceptable(frame, 15, 25)\<close> and
  \<open>detect_motion\<close>, which catch their own exceptions, and \<open>cv2.imwrite\<close> with the
  encoding after it, \<open>Inl\<close> when it raises.
\<close>

record 'f frame_ops =
  is_frame_quality_acceptable :: "'f \<Rightarrow> bool"
  detect_motion :: "'f \<Rightarrow> 'f \<Rightarrow> real"
  imwrite :: "'f \<Rightarrow> string + bool"

text \<open>An entry of \<open>extracted_frames\<close>: the time in minutes and seconds, the number, the image.\<close>

record 'f extracted =
  ex_minutes :: int
  ex_seconds :: int
  ex_frame_number :: nat
  ex_image :: 'f

record 'f extract_state =
  extracted_frames :: "'f extracted list"
  frame_count :: nat
  last_saved_frame :: "'f option"
  skipped_frames :: nat

definition initial_state :: "'f extract_state" where
  "initial_state =
     \<lparr>extracted_frames = [], frame_count = 0, last_saved_frame = None, skipped_frames = 0\<rparr>"

text \<open>\<open>int(x)\<close> of a float: truncation towards zero.\<close>

definition py_trunc :: "real \<Rightarrow> int" where
  "py_trunc x = (if x \<ge> 0 then \<lfloor>x\<rfloor> else \<lceil>x\<rceil>)"

text \<open>
  The retention decision, lines 181--206: \<open>should_save\<close> and the state with the
  counter \<open>skipped_frames\<close> as the decision leaves it. The counter grows only when a
  frame is skipped.
\<close>

definition retention ::
  "'f cv \<Rightarrow> 'f frame_ops \<Rightarrow> real \<Rightarrow> 'f extract_state \<Rightarrow> 'f \<Rightarrow> bool \<times> 'f extract_state" where
  "retention c ops similarity_threshold st frame =
     (case last_saved_frame st of
        None \<Rightarrow> (True, st)
      | Some last_saved \<Rightarrow>
          (let motion_score = detect_motion ops last_saved frame;
               motion_threshold = 800
           in if motion_score > motion_threshold then (True, st)
              else
                (let is_similar =
                       calculate_frame_similarity c (Some last_saved) (Some frame)
                         (fl (similarity_threshold + fl 0.05))
                 in if is_similar then
                      (if skipped_frames st mod 3 = 2 then (True, st)
                       else (False, st\<lparr>skipped_frames := skipped_frames st + 1\<rparr>))
                    else (True, st))))"

text \<open>
  Lines 208--238: writing the frame and recording it. \<open>current_time\<close> is an int, so
  \<open>//\<close> and \<open>%\<close> are the integer operations.
\<close>

definition save_frame ::
  "'f frame_ops \<Rightarrow> int \<Rightarrow> 'f extract_state \<Rightarrow> 'f \<Rightarrow> string + 'f extract_state" where
  "save_frame ops current_time st frame =
     (let minutes = current_time div 60;
          seconds = current_time mod 60
      in case imwrite ops frame of
           Inl e \<Rightarrow> Inl e
         | Inr False \<Rightarrow> Inr st
         | Inr True \<Rightarrow>
             Inr (st\<lparr>extracted_frames := extracted_frames st @
                        [\<lparr>ex_minutes = minutes, ex_seconds = seconds,
                          ex_frame_number = frame_count st, ex_image = frame\<rparr>],
                     last_saved_frame := Some frame,
                     frame_count := frame_count st + 1\<rparr>))"

text \<open>
  One iteration of the \<open>while\<close> loop, without the advance of \<open>current_time\<close>. The
  frame number is \<open>int(current_time * fps)\<close>, the product of the int, made a float,
  and the frame rate.
\<close>

definition process_candidate ::
  "'f cv \<Rightarrow> 'f frame_ops \<Rightarrow> 'f capture \<Rightarrow> real \<Rightarrow> int \<Rightarrow> 'f extract_state \<Rightarrow>
     string + 'f extract_state" where
  "process_candidate c ops cap similarity_threshold current_time st =
     (case cap_read cap (py_trunc (fl (fl (of_int current_time) * cap_fps cap))) of
        Read_error e \<Rightarrow> Inl e
      | No_frame \<Rightarrow> Inr st
      | Got frame \<Rightarrow>
          (if \<not> is_frame_quality_acceptable ops frame then Inr st
           else
             (case retention c ops similarity_threshold st frame of
                (should_save, st') \<Rightarrow>
                  if should_save then save_frame ops current_time st' frame else Inr st')))"

text \<open>
  The loop \<open>while current_time < duration\<close>, every path of which ends with
  \<open>current_time += frame_interval\<close>. \<open>frame_interval\<close> is taken to be an int, as its
  default and every call of the repository have it; \<open>current_time\<close>, which starts as
  the int 0, is then an int, its additions are exact, and its comparison with the float
  \<open>duration\<close> is exact. \<open>None\<close> is a loop that never ends; \<open>Inl\<close> is an
  exception, which leaves the loop.
\<close>

partial_function (option) extract_loop ::
  "(int \<Rightarrow> 's \<Rightarrow> string + 's) \<Rightarrow> real \<Rightarrow> int \<Rightarrow> int \<Rightarrow> 's \<Rightarrow> (string + 's) option" where
  "extract_loop body duration frame_interval current_time st =
     (if of_int current_time < duration then
        (case body current_time st of
           Inl e \<Rightarrow> Some (Inl e)
         | Inr st' \<Rightarrow> extract_loop body duration frame_interval (current_time + frame_interval) st')
      else Some (Inr st))"

declare extract_loop.simps [code]

text \<open>The values of the result dict of \<open>extract_frames_with_opencv\<close>.\<close>

datatype 'f xvalue =
  X_bool bool | X_text string | X_nat nat | X_real real | X_frames "'f extracted list"

text \<open>A Python dict with string keys is an association list; \<open>map_of\<close> looks a key up.\<close>

definition extract_success :: "'f extract_state \<Rightarrow> real \<Rightarrow> (string \<times> 'f xvalue) list" where
  "extract_success st similarity_threshold =
     [(''success'', X_bool True),
      (''frames'', X_frames (extracted_frames st)),
      (''total_frames_extracted'', X_nat (frame_count st)),
      (''frames_skipped'', X_nat (skipped_frames st)),
      (''similarity_threshold'', X_real similarity_threshold)]"

definition extract_failure :: "string \<Rightarrow> (string \<times> 'f xvalue) list" where
  "extract_failure e = [(''success'', X_bool False), (''error'', X_text e), (''frames'', X_frames [])]"

text \<open>
  The whole function; the key \<open>video_info\<close> of the success dict is left out. \<open>None\<close>
  is a call that does not return. \<open>duration\<close> is the rounded quotient of the frame
  count and the frame rate.
\<close>

definition extract_frames_with_opencv ::
  "'f cv \<Rightarrow> 'f frame_ops \<Rightarrow> 'f capture \<Rightarrow> int \<Rightarrow> real \<Rightarrow> (string \<times> 'f xvalue) list option" where
  "extract_frames_with_opencv c ops cap frame_interval similarity_threshold =
     (if \<not> isOpened cap then Some (extract_failure ''Could not open video file'')
      else
        (let fps = cap_fps cap;
             total_frames = cap_total_frames cap;
             duration = (if fps > 0 then fl (fl (of_int total_frames) / fps) else 0)
         in case extract_loop (process_candidate c ops cap similarity_threshold)
                   duration frame_interval 0 initial_state of
              None \<Rightarrow> None
            | Some (Inl e) \<Rightarrow> Some (extract_failure e)
            | Some (Inr st) \<Rightarrow> Some (extract_success st similarity_threshold)))"

text \<open>
  A static scene: a capture of \<open>n\<close> frames at one frame per second, all showing the
  image 7, with no motion, acceptable quality and a disk that takes every write.
\<close>

definition static_read :: "int \<Rightarrow> nat read_result" where
  "static_read frame_number = Got 7"

definition static_capture :: "int \<Rightarrow> nat capture" where
  "static_capture n = \<lparr>isOpened = True, cap_fps = 1, cap_total_frames = n, cap_read = static_read\<rparr>"

definition quality_fine :: "nat \<Rightarrow> bool" where
  "quality_fine frame = True"

definition no_motion :: "nat \<Rightarrow> nat \<Rightarrow> real" where
  "no_motion a b = 0"

definition write_ok :: "nat \<Rightarrow> string + bool" where
  "write_ok frame = Inr True"

definition static_ops :: "nat frame_ops" where
  "static_ops = \<lparr>is_frame_quality_acceptable = quality_fine, detect_motion = no_motion,
                 imwrite = write_ok\<rparr>"

text \<open>The seconds at which the frames of a result were taken.\<close>

definition kept_seconds :: "(string \<times> 'f xvalue) list \<Rightarrow> int list" where
  "kept_seconds r =
     (case map_of r ''frames'' of
        Some (X_frames fs) \<Rightarrow> map ex_seconds fs
      | _ \<Rightarrow> [])"

section \<open>BatchOrchestrator and the entry point \<open>analyze_frames_with_openrouter\<close>\<close>

text \<open>
  The annotation response is a JSON document of the service's making. Before a batch
  call returns it with success it logs it, calling \<open>len\<close> and \<open>enumerate\<close> on
  \<open>frameDetails\<close> and on the \<open>safetyIssues\<close> of every frame detail and \<open>.get\<close> on every
  frame detail and every issue; an answer on which one of these raises is a failure of
  the batch. So in an answer that step 4 reads the frame details are dicts in a list and
  so are their issues (an empty dict or string in the place of a list is walked as the
  empty list), and a safety issue, a frame detail and the analysis of a batch are
  records. Of their keys only those that the control flow or the mitigation synthesis
  read are kept; their values are of any JSON type:

  \<^item> \<open>frameIndex\<close> is compared by \<open>==\<close> with the indices of the loaded frames: it is the
    natural number it equals (0 when the key is missing), a value equal to no index
    being a number beyond them;
  \<^item> \<open>type\<close> is looked up by \<open>in\<close> in two lists of strings: a value that is not a string
    is in neither, as a string outside both;
  \<^item> \<open>gridCells\<close> goes to \<open>convert_grid_cells_to_bounding_box\<close>, whose body is all
    inside \<open>try\<close> and which returns a box, a non-empty dict, for a value of any type;
  \<^item> \<open>description\<close> is sliced by \<open>[:40]\<close> for the label of the box. \<open>Text\<close> is a
    string (the empty one when the key is missing; a list is sliced like a string);
    \<open>Unsliceable e\<close> is a value of another type, \<open>null\<close>, a number, a boolean or an
    object, with the message \<open>e\<close> of the exception that slicing it raises.
\<close>

datatype description = Text string | Unsliceable string

record issue =
  issue_type :: string
  issue_description :: description
  gridCells :: string

record frame_detail =
  frameIndex :: nat
  safetyIssues :: "issue list"

record ai_analysis =
  overallExplanation :: string
  frameDetails :: "frame_detail list"

text \<open>An entry of \<open>frames_data\<close>, without its \<open>timestamp\<close>.\<close>

record frame_data =
  fd_filename :: string
  image_base64 :: string
  original_index :: nat

text \<open>
  What \<open>requests.post(..., timeout=120)\<close> does: it raises \<open>requests.exceptions.Timeout\<close>,
  it raises another exception, or it returns a response with a status code and a text.
\<close>

datatype http_outcome = Timed_out string | Post_failed string | Response nat string

text \<open>The dict a batch call returns: \<open>{"success": False, "error": ...}\<close> or \<open>{"success": True, "analysis": ...}\<close>.\<close>

datatype batch_result = Batch_failed string | Batch_ok ai_analysis

text \<open>The exceptions the handlers of the entry point tell apart, with their messages.\<close>

datatype pyexn = Timeout_exc string | Request_exc string | Json_exc string | Other_exc string

text \<open>The mitigation-relevant part of the \<open>analysis\<close> payload of a result.\<close>

record analysis_payload =
  p_incorrectParking :: bool
  p_wasteMaterial :: bool
  p_frameDetails :: "frame_detail list"
  p_mitigationStrategies :: "mitigation list"

datatype avalue = A_bool bool | A_text string | A_int int | A_payload analysis_payload

text \<open>A JSON document as \<open>json.load\<close> returns it: a dict, or a value of another kind.\<close>

datatype doc = Dict "(string \<times> avalue) list" | Not_a_dict

text \<open>The file \<open>analysis.json\<close> of the dataset directory: absent, unreadable, or holding a document.\<close>

datatype cache = No_cache | Unreadable_cache | Cached doc

text \<open>
  Everything outside the process, over a type \<open>'f\<close> of images: the file system calls
  (\<open>Some e\<close> from \<open>w_makedirs\<close> and \<open>Inl e\<close> from \<open>w_listdir\<close> are exceptions;
  \<open>None\<close> from \<open>w_read_base64\<close> is a file that cannot be loaded), the image library,
  the \<open>pow\<close> of the C library,
  the detector (\<open>w_has_yolo\<close> is \<open>HAS_YOLO\<close>; \<open>w_all_detections\<close> is the list
  \<open>all_detections\<close> that \<open>detect_objects_with_yolo\<close> collects for an image path,
  \<open>None\<close> when that raises), the annotation service by batch number and batch, and
  the parse of a response text into an analysis, \<open>Inl e\<close> when
  \<open>response.json()\<close>, the indexing, \<open>json.loads\<close> or the logging of the answer raises
  with the message \<open>e\<close>.
\<close>

record 'f world =
  w_makedirs :: "pyexn option"
  w_cache :: cache
  w_listdir :: "pyexn + string list"
  w_cv :: "'f cv"
  w_pow :: power
  w_read_base64 :: "string \<Rightarrow> string option"
  w_has_yolo :: bool
  w_all_detections :: "string \<Rightarrow> detection list option"
  w_post :: "nat \<Rightarrow> frame_data list \<Rightarrow> http_outcome"
  w_parse :: "string \<Rightarrow> string + ai_analysis"

definition ends_with :: "string \<Rightarrow> string \<Rightarrow> bool" where
  "ends_with suffix s = starts_with (rev suffix) (rev s)"

text \<open>\<open>os.path.join(frames_dir, name)\<close> for a file name of a directory listing.\<close>

definition path_join :: "string \<Rightarrow> string \<Rightarrow> string" where
  "path_join frames_dir name = frames_dir @ ''/'' @ name"

text \<open>The decimal digits of a number, as an f-string writes it.\<close>

fun str_of_nat :: "nat \<Rightarrow> string" where
  "str_of_nat n =
     (if n < 10 then [''0123456789'' ! n]
      else str_of_nat (n div 10) @ [''0123456789'' ! (n mod 10)])"

definition detect_objects_with_yolo :: "'f world \<Rightarrow> string \<Rightarrow> detection list" where
  "detect_objects_with_yolo w image_path =
     (if \<not> w_has_yolo w then []
      else
        (case w_all_detections w image_path of
           None \<Rightarrow> []
         | Some all_detections \<Rightarrow>
             (case remove_duplicate_detections (w_pow w) all_detections default_distance_threshold of
                None \<Rightarrow> []
              | Some unique_detections \<Rightarrow> unique_detections)))"

text \<open>
  \<open>analyze_batch_with_openrouter\<close>: the whole body is inside \<open>try\<close> with the handler
  \<open>except Exception\<close>, so every exception of the call, a time-out included, becomes a
  failure dict of the batch.
\<close>

definition analyze_batch_with_openrouter :: "'f world \<Rightarrow> frame_data list \<Rightarrow> nat \<Rightarrow> batch_result" where
  "analyze_batch_with_openrouter w batch_frames batch_num =
     (case w_post w batch_num batch_frames of
        Timed_out e \<Rightarrow> Batch_failed (''Batch analysis error: '' @ e)
      | Post_failed e \<Rightarrow> Batch_failed (''Batch analysis error: '' @ e)
      | Response status_code body \<Rightarrow>
          (if status_code \<noteq> 200 then
             Batch_failed (''OpenRouter API error: '' @ str_of_nat status_code @ '' - '' @ body)
           else
             (case w_parse w body of
                Inl e \<Rightarrow> Batch_failed (''Batch analysis error: '' @ e)
              | Inr analysis \<Rightarrow> Batch_ok analysis)))"

text \<open>
  The loop \<open>for batch_num in range(total_batches)\<close> over \<open>all_frame_details\<close>: a failed
  batch is logged and the loop goes on.
\<close>

fun batch_loop ::
  "'f world \<Rightarrow> frame_data list \<Rightarrow> nat \<Rightarrow> nat list \<Rightarrow> frame_detail list \<Rightarrow> frame_detail list" where
  "batch_loop w frames_data batch_size [] all_frame_details = all_frame_details"
| "batch_loop w frames_data batch_size (batch_num # rest) all_frame_details =
     (let start_idx = batch_num * batch_size;
          end_idx = min (start_idx + batch_size) (length frames_data);
          batch_frames = take (end_idx - start_idx) (drop start_idx frames_data)
      in case analyze_batch_with_openrouter w batch_frames batch_num of
           Batch_ok analysis \<Rightarrow>
             batch_loop w frames_data batch_size rest (all_frame_details @ frameDetails analysis)
         | Batch_failed e \<Rightarrow> batch_loop w frames_data batch_size rest all_frame_details)"

text \<open>\<open>process_frames_in_batches\<close>, for a positive \<open>batch_size\<close> and a given \<open>frames_dir\<close>.\<close>

definition process_frames_in_batches ::
  "'f world \<Rightarrow> frame_data list \<Rightarrow> nat \<Rightarrow> string \<Rightarrow> frame_detail list \<times> detection list list" where
  "process_frames_in_batches w frames_data batch_size frames_dir =
     (let total_batches = (length frames_data + batch_size - 1) div batch_size;
          all_yolo_detections =
            map (\<lambda>fd. detect_objects_with_yolo w (path_join frames_dir (fd_filename fd))) frames_data
      in (batch_loop w frames_data batch_size [0 ..< total_batches] [], all_yolo_detections))"

text \<open>
  The loading loop: \<open>frames_data\<close> gets an entry, numbered by its place among the
  unique files, for every file that can be read.
\<close>

definition load_frames :: "'f world \<Rightarrow> string \<Rightarrow> string list \<Rightarrow> frame_data list" where
  "load_frames w frames_dir unique_frame_files =
     List.map_filter
       (\<lambda>(idx, filename).
          map_option (\<lambda>b. \<lparr>fd_filename = filename, image_base64 = b, original_index = idx\<rparr>)
            (w_read_base64 w (path_join frames_dir filename)))
       (zip [0 ..< length unique_frame_files] unique_frame_files)"

text \<open>
  The two flags of step 4: an issue of a frame detail counts when some entry of
  \<open>frames_data\<close> has the detail's \<open>frameIndex\<close> as its \<open>original_index\<close>.
\<close>

definition counted_issues :: "frame_data list \<Rightarrow> frame_detail list \<Rightarrow> issue list" where
  "counted_issues frames_data all_frame_details =
     concat (map safetyIssues
       (filter (\<lambda>d. list_ex (\<lambda>fd. original_index fd = frameIndex d) frames_data) all_frame_details))"

text \<open>
  The loop over the issues updates the flags by \<open>if\<close>/\<open>elif\<close>; the two type lists are
  disjoint, so each flag is the existence of an issue of its types.
\<close>

definition overall_incorrect_parking :: "issue list \<Rightarrow> bool" where
  "overall_incorrect_parking issues =
     list_ex (\<lambda>i. issue_type i \<in> set [''parking'', ''vehicle'']) issues"

definition overall_waste_material :: "issue list \<Rightarrow> bool" where
  "overall_waste_material issues =
     list_ex (\<lambda>i. issue_type i \<notin> set [''parking'', ''vehicle''] \<and>
                   issue_type i \<in> set [''waste'', ''debris'']) issues"

text \<open>The comparison \<open>filter_unique_frames\<close> makes in this module; it raises nothing.\<close>

definition image_compare :: "'f cv \<Rightarrow> string \<Rightarrow> real \<Rightarrow> compare" where
  "image_compare c frames_dir similarity_threshold current_frame unique_frame =
     Some (calculate_image_similarity c (path_join frames_dir current_frame)
             (path_join frames_dir unique_frame) similarity_threshold)"

text \<open>
  The box of every counted issue gets a label with the first 40 characters of its
  description. The first description, in the order of the loop, that cannot be sliced
  raises, and the exception leaves step 4.
\<close>

fun first_slice_error :: "issue list \<Rightarrow> string option" where
  "first_slice_error [] = None"
| "first_slice_error (i # rest) =
     (case issue_description i of
        Unsliceable e \<Rightarrow> Some e
      | Text t \<Rightarrow> first_slice_error rest)"

text \<open>
  The body of the \<open>try\<close> block of \<open>analyze_frames_with_openrouter\<close>, in three
  parts. Of the keys of the result the statistics are left out, and writing the
  dataset, whose exceptions are caught on the spot, has no part in the result. The
  boxes of the detector's objects are built from the typed detections of
  \<open>detect_objects_with_yolo\<close> by total functions, and raise nothing.
\<close>

text \<open>
  Steps 3 and 4 and the result object, for the loaded frames. \<open>Inl\<close> is the exception
  of step 4, \<open>Inr\<close> the result object.
\<close>

definition analyze_loaded ::
  "'f world \<Rightarrow> string \<Rightarrow> string list \<Rightarrow> string list \<Rightarrow> frame_data list \<Rightarrow> pyexn + doc" where
  "analyze_loaded w frames_dir frame_files unique_frame_files frames_data =
     (let batch_size = min 3 (max 1 (length frames_data div 2)) in
      case process_frames_in_batches w frames_data batch_size frames_dir of
        (all_frame_details, all_yolo_detections) \<Rightarrow>
          (let issues = counted_issues frames_data all_frame_details in
           case first_slice_error issues of
             Some e \<Rightarrow> Inl (Other_exc e)
           | None \<Rightarrow>
               (let flat_yolo_detections = concat all_yolo_detections;
                    comprehensive_mitigations =
                      generate_mitigation_strategies flat_yolo_detections
                        (overall_incorrect_parking issues) (overall_waste_material issues)
                in Inr (Dict [(''success'', A_bool True),
                    (''analysis'',
                       A_payload \<lparr>p_incorrectParking = overall_incorrect_parking issues,
                                  p_wasteMaterial = overall_waste_material issues,
                                  p_frameDetails = all_frame_details,
                                  p_mitigationStrategies = comprehensive_mitigations\<rparr>),
                    (''frames_analyzed'', A_int (int (length frames_data))),
                    (''total_frames'', A_int (int (length frame_files))),
                    (''unique_frames'', A_int (int (length unique_frame_files))),
                    (''similarity_filtered'',
                       A_int (int (length frame_files) - int (length unique_frame_files)))]))))"

text \<open>
  From the directory listing to the loaded frames. \<open>Inl\<close> is an exception that
  reaches the handlers, with what \<open>len(frames_data) if 'frames_data' in locals() else 0\<close>
  is there: 0 before \<open>frames_data\<close> is bound, its length after; \<open>Inr\<close> is a returned
  document.
\<close>

definition analyze_listing :: "'f world \<Rightarrow> string \<Rightarrow> string list \<Rightarrow> (pyexn \<times> nat) + doc" where
  "analyze_listing w frames_dir listing =
     (let frame_files =
            sort (filter (\<lambda>file. starts_with ''frame_'' file \<and> ends_with ''.jpg'' file) listing)
      in if frame_files = [] then
           Inr (Dict [(''success'', A_bool False),
                      (''error'', A_text ''No frame files found in directory''),
                      (''frames_checked'', A_int 0)])
         else
           (case filter_unique_frames (image_compare (w_cv w) frames_dir 0.88) frame_files of
              None \<Rightarrow> Inl (Other_exc ''slice step cannot be zero'', 0)
            | Some filtered \<Rightarrow>
                (let unique_frame_files =
                       (if length filtered > 15
                        then take 10 (stride (max 2 (length filtered div 10)) filtered)
                        else filtered);
                     frames_data = load_frames w frames_dir unique_frame_files
                 in if frames_data = [] then
                      Inr (Dict [(''success'', A_bool False),
                                 (''error'', A_text ''No frames could be loaded for analysis''),
                                 (''frames_checked'', A_int (int (length frame_files))),
                                 (''unique_frames'', A_int (int (length unique_frame_files)))])
                    else
                      (case analyze_loaded w frames_dir frame_files unique_frame_files
                              frames_data of
                         Inl e \<Rightarrow> Inl (e, length frames_data)
                       | Inr result_obj \<Rightarrow> Inr result_obj))))"

text \<open>The dataset directory, the cached analysis, which is returned as it is, and the listing.\<close>

definition analyze_body :: "'f world \<Rightarrow> string \<Rightarrow> (pyexn \<times> nat) + doc" where
  "analyze_body w frames_dir =
     (case w_makedirs w of
        Some e \<Rightarrow> Inl (e, 0)
      | None \<Rightarrow>
          (case w_cache w of
             Cached cached \<Rightarrow> Inr cached
           | _ \<Rightarrow>
               (case w_listdir w of
                  Inl e \<Rightarrow> Inl (e, 0)
                | Inr listing \<Rightarrow> analyze_listing w frames_dir listing)))"

text \<open>The four handlers, for an exception and the number of loaded frames it finds.\<close>

definition handle_exception :: "pyexn \<Rightarrow> nat \<Rightarrow> doc" where
  "handle_exception exn loaded =
     (case exn of
        Timeout_exc e \<Rightarrow>
          Dict [(''success'', A_bool False), (''error'', A_text ''OpenRouter API request timed out''),
                (''frames_analyzed'', A_int (int loaded))]
      | Request_exc e \<Rightarrow>
          Dict [(''success'', A_bool False), (''error'', A_text (''Network error: '' @ e)),
                (''frames_analyzed'', A_int (int loaded))]
      | Json_exc e \<Rightarrow>
          Dict [(''success'', A_bool False),
                (''error'', A_text (''Failed to parse API response as JSON: '' @ e)),
                (''frames_analyzed'', A_int (int loaded))]
      | Other_exc e \<Rightarrow>
          Dict [(''success'', A_bool False), (''error'', A_text (''Unexpected error: '' @ e)),
                (''frames_analyzed'', A_int (int loaded))])"

definition analyze_frames_with_openrouter :: "'f world \<Rightarrow> string \<Rightarrow> doc" where
  "analyze_frames_with_openrouter w frames_dir =
     (case analyze_body w frames_dir of
        Inr result \<Rightarrow> result
      | Inl (exn, loaded) \<Rightarrow> handle_exception exn loaded)"

text \<open>
  A run of two frames in which the annotation service never answers in time: no cache,
  a listing of two frame files and a stray file, readable files that do not look alike,
  no detector.
\<close>

definition always_timed_out :: "nat \<Rightarrow> frame_data list \<Rightarrow> http_outcome" where
  "always_timed_out batch_num batch_frames = Timed_out ''Read timed out. (read timeout=120)''"

definition read_any :: "string \<Rightarrow> string option" where
  "read_any path = Some ''/9j/4AAQ''"

definition no_detections :: "string \<Rightarrow> detection list option" where
  "no_detections path = Some []"

definition parse_nothing :: "string \<Rightarrow> string + ai_analysis" where
  "parse_nothing body = Inl ''Expecting value: line 1 column 1 (char 0)''"

definition timeout_world :: "nat world" where
  "timeout_world =
     \<lparr>w_makedirs = None, w_cache = No_cache,
      w_listdir = Inr [''frame_1_00m01s.jpg'', ''notes.txt'', ''frame_0_00m00s.jpg''],
      w_cv = toy_cv\<lparr>hist_correl := no_correlation\<rparr>, w_pow = pow_rounded, w_read_base64 = read_any, w_has_yolo = False,
      w_all_detections = no_detections, w_post = always_timed_out, w_parse = parse_nothing\<rparr>"

text \<open>The two entries of \<open>frames_data\<close> of that run.\<close>

definition two_frames :: "frame_data list" where
  "two_frames =
     [\<lparr>fd_filename = ''frame_0_00m00s.jpg'', image_base64 = ''/9j/4AAQ'', original_index = 0\<rparr>,
      \<lparr>fd_filename = ''frame_1_00m01s.jpg'', image_base64 = ''/9j/4AAQ'', original_index = 1\<rparr>]"






section \<open>Structured results\<close>



text \<open>A service that answers every batch with status 503, and a frames directory without frame files.\<close>

definition always_unavailable :: "nat \<Rightarrow> frame_data list \<Rightarrow> http_outcome" where
  "always_unavailable batch_num batch_frames = Response 503 ''Service Unavailable''"


section \<open>Verified properties\<close>

subsection \<open>DetectionDeduplicator\<close>

text \<open>The binary64 numbers of the literals of the inputs below, and of the threshold.\<close>

lemma literals_are_doubles:
  "fl 0.4 = 3602879701896397 / 9007199254740992"
  "fl 0.2 = 3602879701896397 / 18014398509481984"
  "fl 0.1 = 3602879701896397 / 36028797018963968"
  "fl 0.6100000000000001 = 2747195772696003 / 4503599627370496"
  "fl 0.5299999999999999 = 4773815605012725 / 9007199254740992"
  by code_simp+

lemma threshold_value: "default_distance_threshold = 3602879701896397 / 36028797018963968"
  unfolding default_distance_threshold_def by code_simp

text \<open>Two detections at the same box are at distance 0.\<close>

lemma same_box_distance:
  "bbox d = bbox e \<Longrightarrow> center_distance pow_rounded d e = Some 0"
  by (simp add: center_distance_def pow_rounded_def fl_def fl_sqrt_def)

lemma distance_of_boxes:
  "bbox d = bbox d' \<Longrightarrow> center_distance pw d e = center_distance pw d' e"
  unfolding center_distance_def by (erule subst) (rule refl)

text \<open>
  The two chairs of boxes \<open>(0.5, 0.4, 0.2, 0.2)\<close> and
  \<open>(0.6100000000000001, 0.5299999999999999, 0.1, 0.1)\<close>: the float expression gives
  the distance \<open>0.10000000000000006\<close>, while the exact centers are closer than 0.1.
\<close>

lemma wide_small_distance:
  "center_distance pow_rounded chair_small chair_wide =
     Some (3602879701896399 / 36028797018963968)"
  by code_simp

lemma sqrt_less_tenth: "0 \<le> q \<Longrightarrow> q < 1 / 100 \<Longrightarrow> sqrt q < 1 / 10"
proof -
  assume "0 \<le> q" "q < 1 / 100"
  then have "sqrt q < sqrt (1 / 100)" by simp
  also have "sqrt (1 / 100) = 1 / 10"
    using real_sqrt_abs [of "1 / 10"] by (simp add: power2_eq_square)
  finally show ?thesis .
qed

lemma wide_small_euclidean: "euclidean_distance chair_small chair_wide < 1 / 10"
  unfolding euclidean_distance_def
  by (rule sqrt_less_tenth)
    (simp_all add: chair_small_def chair_wide_def center_x_def center_y_def power2_eq_square)

text \<open>
  C5. For an input of exactly two detections: when they have the same class name and
  the distance of their box centers, as the float expression of the code computes it,
  is strictly less than the proximity threshold 0.1, exactly one of them is returned,
  the second when its confidence is strictly higher and the first otherwise (so always
  one of highest confidence); when their class names differ, both are returned in
  order, whatever their centers.
\<close>

theorem dedup_two_detections:
  "(class_name d1 = class_name d2 \<and> center_distance pw d2 d1 = Some distance \<and>
    distance < default_distance_threshold \<longrightarrow>
      remove_duplicate_detections pw [d1, d2] default_distance_threshold =
        Some [if confidence d2 > confidence d1 then d2 else d1]) \<and>
   (class_name d1 \<noteq> class_name d2 \<longrightarrow>
      remove_duplicate_detections pw [d1, d2] default_distance_threshold = Some [d1, d2])"
  by (simp add: remove_duplicate_detections_def dedup_step_def)

theorem dedup_two_detections_witness:
  "remove_duplicate_detections pow_rounded [chair_low, chair_high] default_distance_threshold =
     Some [chair_high] \<and>
   remove_duplicate_detections pow_rounded [chair_high, chair_low] default_distance_threshold =
     Some [chair_high] \<and>
   remove_duplicate_detections pow_rounded [chair_low, table_high] default_distance_threshold =
     Some [chair_low, table_high]"
proof -
  have d: "center_distance pow_rounded chair_high chair_low = Some 0"
    "center_distance pow_rounded chair_low chair_high = Some 0"
    by (rule same_box_distance, simp add: chair_high_def)+
  have t: "0 < default_distance_threshold" by (simp add: threshold_value)
  from dedup_two_detections [of chair_low chair_high pow_rounded 0]
    dedup_two_detections [of chair_high chair_low pow_rounded 0]
    dedup_two_detections [of chair_low table_high pow_rounded 0] d t
  show ?thesis
    by (simp add: chair_high_def chair_low_def table_high_def)
qed

text \<open>
  With the exact Euclidean distance in place of the computed one the statement fails:
  the two chairs above have exact centers closer than 0.1 and both are returned.
\<close>

theorem dedup_two_detections_counterexample:
  "class_name chair_wide = class_name chair_small \<and>
   euclidean_distance chair_small chair_wide < 0.1 \<and>
   center_distance pow_rounded chair_small chair_wide =
     Some (3602879701896399 / 36028797018963968) \<and>
   remove_duplicate_detections pow_rounded [chair_wide, chair_small] default_distance_threshold =
     Some [chair_wide, chair_small]"
proof -
  have c: "class_name chair_wide = class_name chair_small"
    by (simp add: chair_wide_def chair_small_def)
  have e: "euclidean_distance chair_small chair_wide < 0.1"
    using wide_small_euclidean by simp
  have "remove_duplicate_detections pow_rounded [chair_wide, chair_small] default_distance_threshold =
     Some [chair_wide, chair_small]"
    by (simp add: remove_duplicate_detections_def dedup_step_def c wide_small_distance threshold_value)
  with c e wide_small_distance show ?thesis by simp
qed

text \<open>
  C10. Two same-class detections whose computed center distance is below the 0.1
  threshold and whose confidences are exactly equal: the first-arriving one survives
  and the later one is dropped, because the replacement test
  \<open>detection['confidence'] > existing['confidence']\<close> is strict.
\<close>

theorem dedup_tie_keeps_first:
  "class_name d1 = class_name d2 \<Longrightarrow> center_distance pw d2 d1 = Some distance \<Longrightarrow>
   distance < default_distance_threshold \<Longrightarrow> confidence d1 = confidence d2 \<Longrightarrow>
   remove_duplicate_detections pw [d1, d2] default_distance_threshold = Some [d1]"
  by (simp add: remove_duplicate_detections_def dedup_step_def)

theorem dedup_tie_keeps_first_witness:
  "chair_again \<noteq> chair_low \<and>
   remove_duplicate_detections pow_rounded [chair_low, chair_again] default_distance_threshold =
     Some [chair_low]"
proof -
  have same: "class_name chair_low = class_name chair_again"
    "confidence chair_low = confidence chair_again"
    by (simp_all add: chair_again_def)
  have d: "center_distance pow_rounded chair_again chair_low = Some 0"
    by (rule same_box_distance) (simp add: chair_again_def)
  have t: "0 < default_distance_threshold" by (simp add: threshold_value)
  have "chair_again \<noteq> chair_low"
    by (simp add: chair_again_def chair_low_def)
  with dedup_tie_keeps_first [OF same(1) d t same(2)] show ?thesis by simp
qed

text \<open>
  With the exact distance the tie statement fails at the same two boxes: equal
  confidences, exact centers closer than 0.1, and both chairs are returned.
\<close>

theorem dedup_tie_keeps_first_counterexample:
  "class_name chair_wide = class_name chair_small_tie \<and>
   confidence chair_wide = confidence chair_small_tie \<and>
   euclidean_distance chair_small_tie chair_wide < 0.1 \<and>
   remove_duplicate_detections pow_rounded [chair_wide, chair_small_tie] default_distance_threshold =
     Some [chair_wide, chair_small_tie]"
proof -
  have c: "class_name chair_wide = class_name chair_small_tie"
    "confidence chair_wide = confidence chair_small_tie"
    by (simp_all add: chair_wide_def chair_small_tie_def chair_small_def)
  have b: "bbox chair_small_tie = bbox chair_small" by (simp add: chair_small_tie_def)
  have e: "euclidean_distance chair_small_tie chair_wide < 0.1"
    using wide_small_euclidean by (simp add: euclidean_distance_def b)
  have d: "center_distance pow_rounded chair_small_tie chair_wide =
     Some (3602879701896399 / 36028797018963968)"
    using distance_of_boxes [OF b] wide_small_distance by simp
  have "remove_duplicate_detections pow_rounded [chair_wide, chair_small_tie] default_distance_threshold =
     Some [chair_wide, chair_small_tie]"
    by (simp add: remove_duplicate_detections_def dedup_step_def c d threshold_value)
  with c e show ?thesis by simp
qed

subsection \<open>HazardClassifier\<close>



subsection \<open>GridLocator\<close>

lemma parse_cell_range: "parse_cell c = Some (r, k) \<Longrightarrow> r \<le> 2 \<and> k \<le> 3"
  by (auto simp add: parse_cell_def Let_def split: if_splits option.splits)

lemma grid_positions_range: "(r, k) \<in> set (grid_positions cells) \<Longrightarrow> r \<le> 2 \<and> k \<le> 3"
  by (auto simp add: grid_positions_def List.map_filter_def dest: parse_cell_range)

lemma min_of_Min: "min_of x xs = Min (set (x # xs))"
  by (simp only: min_of_def Min.set_eq_fold)

lemma min_of_le: "min_of x xs \<le> x"
  by (simp only: min_of_Min) (rule Min_le, simp_all)

lemma clamp_bounds:
  fixes x0 w0 :: real
  assumes "0 \<le> x0" "x0 \<le> 3 / 4"
  shows "0 \<le> max 0 (min 1 x0) \<and> 0.05 \<le> max 0.05 (min (1 - max 0 (min 1 x0)) w0) \<and>
         max 0 (min 1 x0) + max 0.05 (min (1 - max 0 (min 1 x0)) w0) \<le> 1"
  using assms by (auto simp add: min_def max_def)

lemma box_of_positions_bounds:
  assumes "fst p \<le> 2" "snd p \<le> 3"
  shows "0 \<le> bbox_x (box_of_positions p ps) \<and> 0 \<le> bbox_y (box_of_positions p ps) \<and>
         0.05 \<le> bbox_w (box_of_positions p ps) \<and> 0.05 \<le> bbox_h (box_of_positions p ps) \<and>
         bbox_x (box_of_positions p ps) + bbox_w (box_of_positions p ps) \<le> 1 \<and>
         bbox_y (box_of_positions p ps) + bbox_h (box_of_positions p ps) \<le> 1"
proof -
  let ?c0 = "min_of (snd p) (map snd ps)" and ?r0 = "min_of (fst p) (map fst ps)"
  have "?c0 \<le> 3" using min_of_le [of "snd p" "map snd ps"] assms by linarith
  then have cx: "0 \<le> real ?c0 * (1 / 4)" "real ?c0 * (1 / 4) \<le> 3 / 4" by simp_all
  have "?r0 \<le> 2" using min_of_le [of "fst p" "map fst ps"] assms by linarith
  then have ry: "0 \<le> real ?r0 * (1 / 3)" "real ?r0 * (1 / 3) \<le> 3 / 4" by simp_all
  show ?thesis
    using clamp_bounds [OF cx] clamp_bounds [OF ry]
    by (simp only: box_of_positions_def Let_def bbox.simps)
qed

text \<open>
  C8. For every input string the function returns a box (no exception escapes: the
  only one the body raises on a string, \<open>ValueError\<close> of \<open>int\<close>, is caught at the
  cell). On an empty or all-blank input and on an input with no valid grid token the
  result is the default box \<open>{x: 0.1, y: 0.1, w: 0.2, h: 0.2}\<close>; and every returned
  box has \<open>0 \<le> x\<close>, \<open>0 \<le> y\<close>, width and height at least 0.05, \<open>x + w \<le> 1\<close> and
  \<open>y + h \<le> 1\<close>.
\<close>

theorem grid_box_valid:
  "(s = [] \<or> strip s = [] \<longrightarrow> convert_grid_cells_to_bounding_box s = default_box) \<and>
   (grid_positions (grid_cells s) = [] \<longrightarrow> convert_grid_cells_to_bounding_box s = default_box) \<and>
   0 \<le> bbox_x (convert_grid_cells_to_bounding_box s) \<and>
   0 \<le> bbox_y (convert_grid_cells_to_bounding_box s) \<and>
   0.05 \<le> bbox_w (convert_grid_cells_to_bounding_box s) \<and>
   0.05 \<le> bbox_h (convert_grid_cells_to_bounding_box s) \<and>
   bbox_x (convert_grid_cells_to_bounding_box s) + bbox_w (convert_grid_cells_to_bounding_box s) \<le> 1 \<and>
   bbox_y (convert_grid_cells_to_bounding_box s) + bbox_h (convert_grid_cells_to_bounding_box s) \<le> 1"
proof -
  have d: "0 \<le> bbox_x default_box \<and> 0 \<le> bbox_y default_box \<and>
         0.05 \<le> bbox_w default_box \<and> 0.05 \<le> bbox_h default_box \<and>
         bbox_x default_box + bbox_w default_box \<le> 1 \<and>
         bbox_y default_box + bbox_h default_box \<le> 1"
    by (simp add: default_box_def)
  have a: "s = [] \<or> strip s = [] \<longrightarrow> convert_grid_cells_to_bounding_box s = default_box"
    by (auto simp add: convert_grid_cells_to_bounding_box_def)
  have b: "grid_positions (grid_cells s) = [] \<longrightarrow> convert_grid_cells_to_bounding_box s = default_box"
    by (simp add: convert_grid_cells_to_bounding_box_def Let_def)
  show ?thesis
  proof (cases "grid_positions (grid_cells s)")
    case Nil
    with b have "convert_grid_cells_to_bounding_box s = default_box" by simp
    with a b d show ?thesis by simp
  next
    case (Cons p ps)
    have rng: "fst p \<le> 2" "snd p \<le> 3"
      using grid_positions_range [of "fst p" "snd p" "grid_cells s"] Cons by simp_all
    show ?thesis
    proof (cases "s = [] \<or> strip s = []")
      case True
      with a have "convert_grid_cells_to_bounding_box s = default_box" by simp
      with a b d show ?thesis by simp
    next
      case False
      have "grid_cells s \<noteq> []" using Cons by (auto simp add: grid_positions_def List.map_filter_def)
      with False Cons have "convert_grid_cells_to_bounding_box s = box_of_positions p ps"
        by (simp add: convert_grid_cells_to_bounding_box_def Let_def)
      with box_of_positions_bounds [OF rng, of ps] a b show ?thesis by simp
    qed
  qed
qed

text \<open>The definitions a concrete grid string is evaluated with.\<close>

lemmas grid_eval = convert_grid_cells_to_bounding_box_def strip_def is_space_def whitespace_def grid_cells_def
    int_strip_def is_int_space_def int_whitespace_def
    replace_dash_def grid_positions_def List.map_filter_def parse_cell_def upper_def upper_char_def
    upper_letters_def lower_letters_def py_int_def int_digits_def digit_value_def box_of_positions_def
    min_of_def max_of_def Let_def default_box_def

theorem grid_box_valid_witness:
  "convert_grid_cells_to_bounding_box [] = default_box \<and>
   convert_grid_cells_to_bounding_box ''D9,x'' = default_box \<and>
   convert_grid_cells_to_bounding_box ''B2-B3'' =
     \<lparr>bbox_x = 1 / 4, bbox_y = 1 / 3, bbox_w = 1 / 2, bbox_h = 1 / 3\<rparr>"
proof -
  have "grid_positions (grid_cells ''D9,x'') = []"
    by (simp add: grid_eval)
  with grid_box_valid [of "[]"] grid_box_valid [of "''D9,x''"] show ?thesis
    by (simp add: grid_eval)
qed

subsection \<open>FrameSampler, post-extraction\<close>

lemma primary_loop_extends:
  "primary_loop cmp ixs (u, l) = Some (u', l') \<Longrightarrow> \<exists>t. u' = u @ t"
proof (induction ixs arbitrary: u l)
  case Nil
  then show ?case by simp
next
  case (Cons a ixs)
  obtain i cur where a: "a = (i, cur)" by (cases a)
  from Cons.prems show ?case
    unfolding a
    by (auto split: if_splits option.splits bool.splits dest!: Cons.IH)
qed

lemma primary_filter_ok:
  assumes "primary_filter cmp f fs = Some kept"
  shows "f \<in> set kept \<and> length kept \<le> 12"
proof -
  from assms obtain u l where pl: "primary_loop cmp (zip [1 ..< Suc (length fs)] fs) ([f], 0) = Some (u, l)"
    by (auto simp add: primary_filter_def split: option.splits)
  from primary_loop_extends [OF pl] obtain t where u: "u = f # t" by auto
  show ?thesis
  proof (cases "length u > 12")
    case True
    then have "length u div 12 \<noteq> 0" by (simp add: div_eq_0_iff)
    with assms pl True have "kept = take 12 (stride (length u div 12) u)"
      by (simp add: primary_filter_def py_slice_step_def)
    then show ?thesis by (simp add: u)
  next
    case False
    with assms pl have "kept = u" by (simp add: primary_filter_def)
    with False u show ?thesis by simp
  qed
qed

lemma fallback_sampling_ok:
  assumes "frame_files \<noteq> []"
  shows "\<exists>kept. fallback_sampling frame_files = Some kept \<and> hd frame_files \<in> set kept \<and>
           length kept \<le> 12"
proof -
  from assms obtain f fs where ff: "frame_files = f # fs" by (cases frame_files) auto
  show ?thesis
    by (auto simp add: ff fallback_sampling_def Let_def py_slice_step_def)
qed

text \<open>
  C7. For every non-empty ordered list of frame files and every behaviour of the frame
  comparison, \<open>filter_unique_frames\<close> returns a list that contains the first input
  frame and has at most 12 elements. The same holds of the stride-sampling fallback on
  its own, which is what \<open>filter_unique_frames\<close> returns when the primary algorithm
  raises.
\<close>

theorem filter_unique_frames_first_and_cap:
  "frame_files \<noteq> [] \<Longrightarrow>
     (\<exists>kept. filter_unique_frames cmp frame_files = Some kept \<and>
              hd frame_files \<in> set kept \<and> length kept \<le> 12) \<and>
     (\<exists>kept. fallback_sampling frame_files = Some kept \<and>
              hd frame_files \<in> set kept \<and> length kept \<le> 12) \<and>
     (primary_filter cmp (hd frame_files) (tl frame_files) = None \<longrightarrow>
        filter_unique_frames cmp frame_files = fallback_sampling frame_files)"
proof -
  assume ne: "frame_files \<noteq> []"
  then obtain f fs where ff: "frame_files = f # fs" by (cases frame_files) auto
  have fb: "\<exists>kept. fallback_sampling frame_files = Some kept \<and> hd frame_files \<in> set kept \<and>
           length kept \<le> 12"
    by (rule fallback_sampling_ok [OF ne])
  have link: "primary_filter cmp (hd frame_files) (tl frame_files) = None \<longrightarrow>
        filter_unique_frames cmp frame_files = fallback_sampling frame_files"
    by (simp add: ff filter_unique_frames_def)
  have main: "\<exists>kept. filter_unique_frames cmp frame_files = Some kept \<and>
              hd frame_files \<in> set kept \<and> length kept \<le> 12"
  proof (cases "primary_filter cmp f fs")
    case None
    with link fb show ?thesis by (simp add: ff)
  next
    case (Some kept)
    with primary_filter_ok [OF Some] show ?thesis
      by (simp add: ff filter_unique_frames_def)
  qed
  from main fb link show ?thesis by blast
qed

theorem filter_unique_frames_first_and_cap_witness:
  "filter_unique_frames cmp_raises (frame_names 16) = fallback_sampling (frame_names 16) \<and>
   fallback_sampling (frame_names 16) =
     Some [frame_name 0, frame_name 5, frame_name 10, frame_name 15] \<and>
   filter_unique_frames cmp_all_different (frame_names 14) =
     Some (take 12 (frame_names 14)) \<and>
   filter_unique_frames cmp_all_similar (frame_names 14) = Some [frame_name 0]"
proof -
  have ne: "frame_names 16 \<noteq> []" by code_simp
  have pn: "primary_filter cmp_raises (hd (frame_names 16)) (tl (frame_names 16)) = None"
    by code_simp
  have fb: "fallback_sampling (frame_names 16) =
     Some [frame_name 0, frame_name 5, frame_name 10, frame_name 15]"
    by code_simp
  have d: "filter_unique_frames cmp_all_different (frame_names 14) =
     Some (take 12 (frame_names 14))"
    by code_simp
  have s: "filter_unique_frames cmp_all_similar (frame_names 14) = Some [frame_name 0]"
    by code_simp
  from filter_unique_frames_first_and_cap [OF ne, of cmp_raises] pn fb d s show ?thesis
    by simp
qed

subsection \<open>MitigationSynthesizer\<close>

text \<open>The definitions a concrete class name is evaluated with.\<close>

lemmas str_eval = lower_def lower_char_def upper_letters_def lower_letters_def any_in_def

lemmas record_defs = vehicle_record_def furniture_record_def container_record_def trip_record_def
  personal_record_def people_record_def ai_parking_record_def ai_waste_record_def
  preventive_record_def

lemma mtypes:
  "mtype (vehicle_record objs) = ''vehicle_parking_violation''"
  "mtype (furniture_record objs) = ''furniture_obstruction''"
  "mtype (container_record objs) = ''container_storage_violation''"
  "mtype (trip_record objs) = ''trip_hazard_elimination''"
  "mtype (personal_record objs) = ''personal_belongings_management''"
  "mtype (people_record objs) = ''personnel_safety_training''"
  "mtype ai_parking_record = ''ai_detected_parking_violation''"
  "mtype ai_waste_record = ''ai_detected_waste_debris''"
  "mtype preventive_record = ''preventive_maintenance''"
  by (simp_all add: record_defs)

lemma count_emit:
  "length (filter (\<lambda>m. mtype m = t) (emit_if_any template objs)) =
     (if objs \<noteq> [] \<and> mtype (template objs) = t then 1 else 0)"
  by (simp add: emit_if_any_def)

lemma count_flag:
  "length (filter (\<lambda>m. mtype m = t) (if c then [r] else [])) =
     (if c \<and> mtype r = t then 1 else 0)"
  by simp

lemma count_all:
  "length (filter (\<lambda>m. mtype m = t)
           (generate_mitigation_strategies objs incorrectParking wasteMaterial)) =
   (if object_categories objs Vehicles \<noteq> [] \<and> ''vehicle_parking_violation'' = t then 1 else 0) +
   (if object_categories objs Furniture \<noteq> [] \<and> ''furniture_obstruction'' = t then 1 else 0) +
   (if object_categories objs Containers \<noteq> [] \<and> ''container_storage_violation'' = t then 1 else 0) +
   (if object_categories objs Trip_hazards \<noteq> [] \<and> ''trip_hazard_elimination'' = t then 1 else 0) +
   (if object_categories objs Personal_items \<noteq> [] \<and> ''personal_belongings_management'' = t then 1 else 0) +
   (if object_categories objs People \<noteq> [] \<and> ''personnel_safety_training'' = t then 1 else 0) +
   (if incorrectParking \<and> ''ai_detected_parking_violation'' = t then 1 else 0) +
   (if wasteMaterial \<and> ''ai_detected_waste_debris'' = t then 1 else 0) +
   (if (\<not> list_ex (\<lambda>b. object_categories objs b \<noteq> []) all_buckets \<and> \<not> incorrectParking \<and> \<not> wasteMaterial)
       \<and> ''preventive_maintenance'' = t then 1 else 0)"
  unfolding generate_mitigation_strategies_def Let_def filter_append length_append
    count_emit count_flag mtypes
  by (simp only: add.assoc)

text \<open>
  Each of the six buckets that has a template gets exactly one record when it is
  non-empty and none when it is empty.
\<close>

lemma templated_bucket_one_record:
  assumes "bucket_type b = Some t"
  shows "length (filter (\<lambda>m. mtype m = t)
           (generate_mitigation_strategies objs incorrectParking wasteMaterial)) =
         (if object_categories objs b \<noteq> [] then 1 else 0)"
proof (cases b)
  case Vehicles
  with assms have "t = ''vehicle_parking_violation''" by (simp add: bucket_type_def)
  then show ?thesis unfolding count_all Vehicles by simp
next
  case Furniture
  with assms have "t = ''furniture_obstruction''" by (simp add: bucket_type_def)
  then show ?thesis unfolding count_all Furniture by simp
next
  case Personal_items
  with assms have "t = ''personal_belongings_management''" by (simp add: bucket_type_def)
  then show ?thesis unfolding count_all Personal_items by simp
next
  case Containers
  with assms have "t = ''container_storage_violation''" by (simp add: bucket_type_def)
  then show ?thesis unfolding count_all Containers by simp
next
  case Trip_hazards
  with assms have "t = ''trip_hazard_elimination''" by (simp add: bucket_type_def)
  then show ?thesis unfolding count_all Trip_hazards by simp
next
  case People
  with assms have "t = ''personnel_safety_training''" by (simp add: bucket_type_def)
  then show ?thesis unfolding count_all People by simp
next
  case Equipment
  with assms show ?thesis by (simp add: bucket_type_def)
next
  case Other_hazards
  with assms show ?thesis by (simp add: bucket_type_def)
qed

text \<open>
  The fallback record is emitted exactly when all eight buckets are empty and both
  flags are false, and it is then the only record.
\<close>

lemma some_bucket_nonempty:
  "list_ex (\<lambda>b. object_categories objs b \<noteq> []) all_buckets \<longleftrightarrow>
      (\<exists>b. object_categories objs b \<noteq> [])"
proof
  assume "\<exists>b. object_categories objs b \<noteq> []"
  then obtain b where "object_categories objs b \<noteq> []" by blast
  then show "list_ex (\<lambda>b. object_categories objs b \<noteq> []) all_buckets"
    by (cases b) (simp_all add: all_buckets_def)
next
  assume "list_ex (\<lambda>b. object_categories objs b \<noteq> []) all_buckets"
  then show "\<exists>b. object_categories objs b \<noteq> []"
    unfolding list_ex_iff by blast
qed

lemma fallback_count:
  "length (filter (\<lambda>m. mtype m = ''preventive_maintenance'')
           (generate_mitigation_strategies objs incorrectParking wasteMaterial)) =
     (if (\<forall>b. object_categories objs b = []) \<and> \<not> incorrectParking \<and> \<not> wasteMaterial then 1 else 0)"
  unfolding count_all some_bucket_nonempty by simp

lemma fallback_alone:
  assumes "\<forall>b. object_categories objs b = []" "\<not> incorrectParking" "\<not> wasteMaterial"
  shows "generate_mitigation_strategies objs incorrectParking wasteMaterial = [preventive_record]"
  using assms
  by (simp add: generate_mitigation_strategies_def Let_def emit_if_any_def all_buckets_def)

lemma couch_fields:
  "safety_category det_couch = classify_object_for_safety (class_name det_couch) \<and>
   is_realistic_detection (class_name det_couch) (bbox det_couch) (confidence det_couch) \<and>
   potential_hazard det_couch =
     is_critical_safety_hazard (class_name det_couch) (confidence det_couch) (bbox det_couch) 0.20"
  by (simp add: det_couch_def classify_object_for_safety_def safety_categories_def str_eval
      is_realistic_detection_def is_critical_safety_hazard_def get_adaptive_confidence_threshold_def
      critical_hazards_def in_pathway_def center_x_def center_y_def)

lemma couch_bucket: "bucket_of det_couch = Other_hazards"
  by (simp add: det_couch_def bucket_of_def str_eval)

text \<open>
  C1. A record for every non-empty bucket of the eight is not what the function
  returns: for a single hazard-classified couch, which falls into the bucket
  \<open>other_hazards\<close>, with both flags false, the bucket is non-empty and the result is
  the empty list, with neither a record for the bucket nor the fallback record. (The
  six buckets with a template do get exactly one record each, and the fallback is
  emitted exactly when all buckets are empty and both flags are false:
  \<open>templated_bucket_one_record\<close>, \<open>fallback_count\<close>, \<open>fallback_alone\<close>.)
\<close>

theorem couch_has_no_record:
  "potential_hazard det_couch \<and> bucket_of det_couch = Other_hazards \<and>
   object_categories [det_couch] Other_hazards = [det_couch] \<and>
   generate_mitigation_strategies [det_couch] False False = []"
  by (simp add: generate_mitigation_strategies_def object_categories_def add_object_def couch_bucket
      emit_if_any_def all_buckets_def)
    (simp add: det_couch_def)

subsection \<open>SimilarityScorer\<close>

lemma fold_max_Max: "fold max ss (s::real) = Max (set (s # ss))"
  by (simp only: Max.set_eq_fold)

lemma scores_exceed_iff:
  "scores_exceed scores t \<longleftrightarrow> scores \<noteq> [] \<and> t < Max (set scores)"
  by (cases scores) (simp_all only: scores_exceed_def list.case fold_max_Max, simp_all)

lemma frame_scores_nonempty: "frame_scores c g1 g2 = Some scores \<Longrightarrow> scores \<noteq> []"
  by (auto simp add: frame_scores_def split: option.splits if_splits)

lemma image_scores_nonempty: "image_scores c g1 g2 = Some scores \<Longrightarrow> scores \<noteq> []"
  by (auto simp add: image_scores_def split: option.splits if_splits)

lemma Max_attained:
  assumes "finite S" "m \<in> S" "\<forall>s\<in>S. s \<le> (m::real)"
  shows "Max S = m"
  using assms by (intro Max_eqI) auto

text \<open>
  When the histogram correlation of an image with itself is \<open>m\<close> and no other method
  scores the pair above \<open>m\<close>, the largest score of the pair is \<open>m\<close>.
\<close>

lemma self_scores_max:
  assumes "has_scikit_image c \<longrightarrow> (\<exists>s. ssim c g g = Some s \<and> s \<le> m)"
    and "\<forall>s. match_template c g g = Some s \<longrightarrow> s \<le> m"
  shows "\<exists>a. (if has_scikit_image c then map_option (\<lambda>s. [s]) (ssim c g g) else Some []) = Some a \<and>
           Max (set (a @ [m] @ template_scores c g g)) = m"
proof -
  obtain a where a: "(if has_scikit_image c then map_option (\<lambda>s. [s]) (ssim c g g) else Some []) = Some a"
    and al: "\<forall>s\<in>set a. s \<le> m"
    using assms(1) by (cases "has_scikit_image c") auto
  have bl: "\<forall>s\<in>set (template_scores c g g). s \<le> m"
    using assms(2) by (auto simp add: template_scores_def split: option.splits)
  have "Max (set (a @ [m] @ template_scores c g g)) = m"
    by (rule Max_attained) (use al bl in auto)
  with a show ?thesis by blast
qed

lemma frame_self:
  assumes "resize c f = Some g"
    and "has_scikit_image c \<longrightarrow> (\<exists>s. ssim c g g = Some s \<and> s \<le> m)"
    and "hist_correl c g g = Some m"
    and "\<forall>s. match_template c g g = Some s \<longrightarrow> s \<le> m"
  shows "calculate_frame_similarity c (Some f) (Some f) t \<longleftrightarrow> t < m"
proof -
  from self_scores_max [OF assms(2,4)] obtain a where
    a: "(if has_scikit_image c then map_option (\<lambda>s. [s]) (ssim c g g) else Some []) = Some a"
    and m: "Max (set (a @ [m] @ template_scores c g g)) = m" by blast
  from a assms(3) have "frame_scores c g g = Some (a @ [m] @ template_scores c g g)"
    by (simp add: frame_scores_def)
  with assms(1) m show ?thesis
    by (simp add: calculate_frame_similarity_def scores_exceed_iff)
qed

lemma image_self:
  assumes "imread c path = Some f" "resize c f = Some g"
    and "has_scikit_image c \<longrightarrow> (\<exists>s. ssim c g g = Some s \<and> s \<le> m)"
    and "hist_correl c g g = Some m"
    and "\<forall>s. match_template c g g = Some s \<longrightarrow> s \<le> m"
  shows "calculate_image_similarity c path path t \<longleftrightarrow> t < m"
proof -
  from self_scores_max [OF assms(3,5)] obtain a where
    a: "(if has_scikit_image c then map_option (\<lambda>s. [s]) (ssim c g g) else Some []) = Some a"
    and m: "Max (set (a @ [m] @ template_scores c g g)) = m" by blast
  from a assms(4) have "image_scores c g g = Some (a @ [m] @ template_scores c g g)"
    by (simp add: image_scores_def calculate_basic_similarity_def)
  with assms(1,2) m show ?thesis
    by (simp add: calculate_image_similarity_def scores_exceed_iff)
qed

text \<open>
  C3. Let \<open>m\<close> be the maximum attainable score of the method: identical inputs attain
  it, that is, the histogram correlation of the resized frame \<open>g\<close> with itself is \<open>m\<close>,
  and neither the structural similarity, when it is installed, nor the template
  matching, when it does not raise, scores \<open>g\<close> against itself above \<open>m\<close>. Then a frame
  that can be read and resized is classified similar to itself at every threshold
  strictly below \<open>m\<close>, by both scorers, and at no threshold from \<open>m\<close> on: at the
  threshold \<open>m\<close> itself it is not similar, since the test is
  \<open>max(scores) > threshold\<close>.
\<close>

theorem self_similarity_strictly_below_max:
  "(resize c f = Some g \<and>
    (has_scikit_image c \<longrightarrow> (\<exists>s. ssim c g g = Some s \<and> s \<le> m)) \<and>
    hist_correl c g g = Some m \<and>
    (\<forall>s. match_template c g g = Some s \<longrightarrow> s \<le> m) \<longrightarrow>
      (calculate_frame_similarity c (Some f) (Some f) t \<longleftrightarrow> t < m)) \<and>
   (imread c path = Some f \<and> resize c f = Some g \<and>
    (has_scikit_image c \<longrightarrow> (\<exists>s. ssim c g g = Some s \<and> s \<le> m)) \<and>
    hist_correl c g g = Some m \<and>
    (\<forall>s. match_template c g g = Some s \<longrightarrow> s \<le> m) \<longrightarrow>
      (calculate_image_similarity c path path t \<longleftrightarrow> t < m))"
  using frame_self [of c f g m t] image_self [of c path f g m t] by blast

text \<open>The definitions the stand-in image library is evaluated with.\<close>

lemmas toy_eval = toy_cv_def read_seven_def exact_match_score_def no_score_def
  frame_scores_def image_scores_def template_scores_def calculate_basic_similarity_def
  calculate_frame_similarity_def calculate_image_similarity_def scores_exceed_def

theorem self_similarity_strictly_below_max_witness:
  "calculate_frame_similarity toy_cv (Some 7) (Some 7) 0.99 \<and>
   \<not> calculate_frame_similarity toy_cv (Some 7) (Some 7) 1 \<and>
   calculate_image_similarity full_cv ''frame_0_00m00s.jpg'' ''frame_0_00m00s.jpg'' 0.88 \<and>
   \<not> calculate_image_similarity full_cv ''frame_0_00m00s.jpg'' ''frame_0_00m00s.jpg'' 1"
proof -
  have r: "resize toy_cv 7 = Some 7" "\<not> has_scikit_image toy_cv"
    "hist_correl toy_cv 7 7 = Some 1" "match_template toy_cv 7 7 = None"
    by (simp_all add: toy_cv_def exact_match_score_def no_score_def)
  have s: "imread full_cv ''frame_0_00m00s.jpg'' = Some 7" "resize full_cv 7 = Some 7"
    "has_scikit_image full_cv" "ssim full_cv 7 7 = Some 1"
    "hist_correl full_cv 7 7 = Some 1" "match_template full_cv 7 7 = Some 1"
    by (simp_all add: full_cv_def toy_cv_def read_seven_def exact_match_score_def)
  from self_similarity_strictly_below_max [where c = toy_cv and f = 7 and g = 7 and m = 1
      and t = "0.99"]
    self_similarity_strictly_below_max [where c = toy_cv and f = 7 and g = 7 and m = 1
      and t = 1]
    self_similarity_strictly_below_max [where c = full_cv and f = 7 and g = 7 and m = 1
      and t = "0.88" and path = "''frame_0_00m00s.jpg''"]
    self_similarity_strictly_below_max [where c = full_cv and f = 7 and g = 7 and m = 1
      and t = 1 and path = "''frame_0_00m00s.jpg''"]
    r s
  show ?thesis by simp
qed

text \<open>
  With a histogram correlation whose maximum 1 is attained on identical images, the
  only score of a frame against itself is 1, and at the threshold 1, which is not above
  the maximum, the frame is not classified similar to itself.
\<close>

theorem self_similarity_at_max_counterexample:
  "hist_correl toy_cv 7 7 = Some 1 \<and>
   frame_scores toy_cv 7 7 = Some [1] \<and> image_scores toy_cv 7 7 = Some [1] \<and>
   \<not> calculate_frame_similarity toy_cv (Some 7) (Some 7) 1 \<and>
   \<not> calculate_image_similarity toy_cv ''frame_0_00m00s.jpg'' ''frame_0_00m00s.jpg'' 1"
  by (simp add: toy_eval)

subsection \<open>FrameSampler, extraction time\<close>

text \<open>
  The threshold of the similarity test for \<open>similarity_threshold=0.70\<close> is the double
  0.75, whether the literal 0.70 is read as the decimal or as the double nearest to it.
\<close>

lemma static_threshold:
  "fl (0.70 + fl 0.05) = 3 / 4"
  "fl (fl 0.70 + fl 0.05) = 3 / 4"
  by code_simp+

text \<open>
  Once two similar frames have been skipped the counter stays at 2, and from then on
  the decision is to save, whatever the frame.
\<close>

lemma retention_after_two_skips:
  "skipped_frames st mod 3 = 2 \<Longrightarrow> retention c ops similarity_threshold st frame = (True, st)"
  by (simp add: retention_def Let_def split: option.splits)

text \<open>
  C2. A cadence of every third similar frame is not what the loop does: in a static
  scene of seven seconds, where every frame after the first has no motion and is
  similar to the last kept one, the frames at seconds 1 and 2 are skipped and those at
  seconds 3, 4, 5 and 6 are all kept, where the cadence would skip 4 and 5.
\<close>

theorem static_scene_keeps_every_frame_after_third:
  "map_option kept_seconds
     (extract_frames_with_opencv toy_cv static_ops (static_capture 7) 1 0.70) =
   Some [0, 3, 4, 5, 6]"
  by code_simp







subsection \<open>BatchOrchestrator and the entry points\<close>

lemma batch_timeout:
  "w_post w batch_num batch_frames = Timed_out e \<Longrightarrow>
   analyze_batch_with_openrouter w batch_frames batch_num =
     Batch_failed (''Batch analysis error: '' @ e)"
  by (simp add: analyze_batch_with_openrouter_def)

lemma failed_batch_skipped:
  "analyze_batch_with_openrouter w
     (take (min (k * bs + bs) (length fd) - k * bs) (drop (k * bs) fd)) k = Batch_failed e \<Longrightarrow>
   batch_loop w fd bs (k # rest) acc = batch_loop w fd bs rest acc"
  by (simp add: Let_def)

lemma all_timed_out_loop:
  assumes "\<forall>n b. \<exists>e. w_post w n b = Timed_out e"
  shows "batch_loop w fd bs ns acc = acc"
proof (induction ns)
  case Nil
  show ?case by simp
next
  case (Cons k rest)
  let ?b = "take (min (k * bs + bs) (length fd) - k * bs) (drop (k * bs) fd)"
  from assms obtain e where "w_post w k ?b = Timed_out e" by blast
  from failed_batch_skipped [OF batch_timeout [OF this]] Cons show ?case by simp
qed

text \<open>Steps 3 and 4 raise no time-out: the handler of the entry point for it is not reached from a batch.\<close>

lemma no_timeout_from_batches:
  "analyze_loaded w frames_dir ff uf fd \<noteq> Inl (Timeout_exc e)"
  by (simp add: analyze_loaded_def Let_def split: prod.splits option.splits)

lemma all_timed_out_run:
  assumes "\<forall>n b. \<exists>e. w_post w n b = Timed_out e"
  shows "\<exists>kv p. analyze_loaded w frames_dir ff uf fd = Inr (Dict kv) \<and>
           map_of kv ''success'' = Some (A_bool True) \<and>
           map_of kv ''analysis'' = Some (A_payload p) \<and> p_frameDetails p = []"
  by (simp add: analyze_loaded_def Let_def process_frames_in_batches_def
      all_timed_out_loop [OF assms] counted_issues_def)

text \<open>
  C4. A time-out of the call of a batch becomes the failure result of that batch
  only, not of the run: \<open>analyze_batch_with_openrouter\<close> catches it and returns the
  failure dict of the batch; the loop of \<open>process_frames_in_batches\<close> skips a failed
  batch and goes on with the next; steps 3 and 4 raise no time-out to the handlers of
  the entry point; and when every call of the run times out, the frames that were
  loaded still give a success result, with no frame details.
\<close>

theorem batch_timeout_not_terminal:
  "(w_post w batch_num batch_frames = Timed_out e \<longrightarrow>
      analyze_batch_with_openrouter w batch_frames batch_num =
        Batch_failed (''Batch analysis error: '' @ e)) \<and>
   (analyze_batch_with_openrouter w
      (take (min (k * bs + bs) (length fd) - k * bs) (drop (k * bs) fd)) k = Batch_failed e' \<longrightarrow>
      batch_loop w fd bs (k # rest) acc = batch_loop w fd bs rest acc) \<and>
   analyze_loaded w frames_dir frame_files unique_frame_files frames_data \<noteq> Inl (Timeout_exc e) \<and>
   ((\<forall>n b. \<exists>e. w_post w n b = Timed_out e) \<longrightarrow>
      (\<exists>kv p. analyze_loaded w frames_dir frame_files unique_frame_files frames_data =
                Inr (Dict kv) \<and>
              map_of kv ''success'' = Some (A_bool True) \<and>
              map_of kv ''analysis'' = Some (A_payload p) \<and> p_frameDetails p = []))"
  using batch_timeout failed_batch_skipped no_timeout_from_batches
    all_timed_out_run [of w frames_dir frame_files unique_frame_files frames_data]
  by blast

theorem batch_timeout_not_terminal_witness:
  "analyze_batch_with_openrouter timeout_world (take 1 two_frames) 0 =
     Batch_failed ''Batch analysis error: Read timed out. (read timeout=120)'' \<and>
   batch_loop timeout_world two_frames 1 [0, 1] [] = batch_loop timeout_world two_frames 1 [1] [] \<and>
   (\<exists>kv p. analyze_loaded timeout_world ''frames''
              [''frame_0_00m00s.jpg'', ''frame_1_00m01s.jpg'']
              [''frame_0_00m00s.jpg'', ''frame_1_00m01s.jpg''] two_frames = Inr (Dict kv) \<and>
           map_of kv ''success'' = Some (A_bool True) \<and>
           map_of kv ''analysis'' = Some (A_payload p) \<and> p_frameDetails p = [])"
proof -
  have p: "w_post timeout_world 0 (take 1 two_frames) =
      Timed_out ''Read timed out. (read timeout=120)''"
    by (simp add: timeout_world_def always_timed_out_def)
  have t: "take (min (0 * 1 + 1) (length two_frames) - 0 * 1) (drop (0 * 1) two_frames) =
      take 1 two_frames"
    by (simp add: two_frames_def)
  have b: "analyze_batch_with_openrouter timeout_world (take 1 two_frames) 0 =
     Batch_failed ''Batch analysis error: Read timed out. (read timeout=120)''"
    by (simp add: analyze_batch_with_openrouter_def timeout_world_def always_timed_out_def)
  have a: "\<forall>n b. \<exists>e. w_post timeout_world n b = Timed_out e"
    by (simp add: timeout_world_def always_timed_out_def)
  from batch_timeout_not_terminal [where w = timeout_world and batch_num = 0
      and batch_frames = "take 1 two_frames" and e = "''Read timed out. (read timeout=120)''"
      and k = 0 and bs = 1 and fd = two_frames
      and e' = "''Batch analysis error: Read timed out. (read timeout=120)''"
      and rest = "[1]" and acc = "[]" and frames_dir = "''frames''"
      and frame_files = "[''frame_0_00m00s.jpg'', ''frame_1_00m01s.jpg'']"
      and unique_frame_files = "[''frame_0_00m00s.jpg'', ''frame_1_00m01s.jpg'']"
      and frames_data = two_frames]
    p b a
  show ?thesis by (simp only: t) simp
qed

text \<open>
  A run in which every batch call times out ends with a success result, with no frame
  details and the preventive mitigation alone.
\<close>

theorem batch_timeout_terminal_counterexample:
  "w_post timeout_world 0 (take 1 two_frames) = Timed_out ''Read timed out. (read timeout=120)'' \<and>
   load_frames timeout_world ''frames'' [''frame_0_00m00s.jpg'', ''frame_1_00m01s.jpg''] =
     two_frames \<and>
   analyze_frames_with_openrouter timeout_world ''frames'' =
     Dict [(''success'', A_bool True),
           (''analysis'',
              A_payload \<lparr>p_incorrectParking = False, p_wasteMaterial = False, p_frameDetails = [],
                         p_mitigationStrategies = [preventive_record]\<rparr>),
           (''frames_analyzed'', A_int 2), (''total_frames'', A_int 2),
           (''unique_frames'', A_int 2), (''similarity_filtered'', A_int 0)]"
  by code_simp












end
